theory Spec2Isabelle
  imports
    Complex_Main
    "HOL-Library.Char_ord"
    "HOL-Library.List_Lexorder"
    "HOL-Library.Product_Lexorder"
    "HOL-Library.Multiset"
    "HOL-Library.Word"
begin

section \<open>Text: characters, strings and the string methods the service uses\<close>

text \<open>
  The service works on Python \<open>str\<close> values. Text is modelled as \<open>string\<close> over ASCII:
  the character classes below are those of Python on code points below 128
  (\<open>str.isspace\<close>, \<open>str.isdigit\<close>, \<open>str.lower\<close>, \<open>str.upper\<close> and the classes
  \<open>\s\<close>, \<open>\d\<close>, \<open>\w\<close> of module \<open>re\<close>).
\<close>

definition is_digit :: "char \<Rightarrow> bool" where
  "is_digit c \<longleftrightarrow> CHR ''0'' \<le> c \<and> c \<le> CHR ''9''"

definition is_upper :: "char \<Rightarrow> bool" where
  "is_upper c \<longleftrightarrow> CHR ''A'' \<le> c \<and> c \<le> CHR ''Z''"

definition is_lower :: "char \<Rightarrow> bool" where
  "is_lower c \<longleftrightarrow> CHR ''a'' \<le> c \<and> c \<le> CHR ''z''"

definition is_word :: "char \<Rightarrow> bool" where
  "is_word c \<longleftrightarrow> is_upper c \<or> is_lower c \<or> is_digit c \<or> c = CHR ''_''"

definition is_space :: "char \<Rightarrow> bool" where
  "is_space c \<longleftrightarrow> (CHR 0x09 \<le> c \<and> c \<le> CHR 0x0D) \<or> (CHR 0x1C \<le> c \<and> c \<le> CHR 0x20)"

definition to_lower :: "char \<Rightarrow> char" where
  "to_lower c = (if is_upper c then char_of (of_char c + (32::nat)) else c)"

definition to_upper :: "char \<Rightarrow> char" where
  "to_upper c = (if is_lower c then char_of (of_char c - (32::nat)) else c)"

definition lower :: "string \<Rightarrow> string" where
  "lower s = map to_lower s"

definition upper :: "string \<Rightarrow> string" where
  "upper s = map to_upper s"

definition strip :: "string \<Rightarrow> string" where
  "strip s = rev (dropWhile is_space (rev (dropWhile is_space s)))"

fun starts_with :: "string \<Rightarrow> string \<Rightarrow> bool" where
  "starts_with [] s = True"
| "starts_with (x # xs) [] = False"
| "starts_with (x # xs) (c # cs) = (x = c \<and> starts_with xs cs)"

text \<open>\<open>contains sub s\<close> is Python's \<open>sub in s\<close>.\<close>

fun contains :: "string \<Rightarrow> string \<Rightarrow> bool" where
  "contains sub [] = (sub = [])"
| "contains sub (c # cs) = (starts_with sub (c # cs) \<or> contains sub cs)"

text \<open>\<open>split_on c s\<close> is \<open>s.split(c)\<close> for a one-character separator.\<close>

fun split_on :: "char \<Rightarrow> string \<Rightarrow> string list" where
  "split_on d [] = [[]]"
| "split_on d (c # cs) =
     (if c = d then [] # split_on d cs
      else (case split_on d cs of [] \<Rightarrow> [[c]] | w # ws \<Rightarrow> (c # w) # ws))"

text \<open>
  \<open>after_colon line\<close> is the expression
  \<open>line.split(":", 1)[1].strip() if ":" in line else line\<close> of the parsers.
\<close>

definition after_colon :: "string \<Rightarrow> string" where
  "after_colon line =
     (if CHR '':'' \<in> set line then strip (tl (dropWhile (\<lambda>c. c \<noteq> CHR '':'') line)) else line)"

section \<open>Regular expressions as module re matches them\<close>

text \<open>
  The patterns of the service are regular expressions for Python's \<open>re\<close>. They are
  embedded as syntax trees and matched by a backtracking matcher that lists the ways a
  pattern matches at a position in the order \<open>re\<close> tries them (greedy repetition first,
  alternatives left to right), so that the first element is the match \<open>re\<close> reports.
  A matcher state is the character before the position (for \<open>\b\<close>) and the text from
  the position on.
\<close>

datatype cset = Ch char | Rg char char | Dg | Sp

datatype rx =
    Eps
  | In "cset list"
  | NotIn "cset list"
  | WordB
  | Seq rx rx
  | Alt rx rx
  | Star rx

type_synonym mstate = "char option \<times> string"

fun in_cset1 :: "cset \<Rightarrow> char \<Rightarrow> bool" where
  "in_cset1 (Ch x) c = (c = x)"
| "in_cset1 (Rg a b) c = (a \<le> c \<and> c \<le> b)"
| "in_cset1 Dg c = is_digit c"
| "in_cset1 Sp c = is_space c"

text \<open>Under \<open>re.IGNORECASE\<close> a character matches a set when either of its cases does.\<close>

definition in_cset :: "bool \<Rightarrow> cset list \<Rightarrow> char \<Rightarrow> bool" where
  "in_cset ic cl c \<longleftrightarrow>
     (\<exists>x \<in> set cl. in_cset1 x c \<or> (ic \<and> (in_cset1 x (to_lower c) \<or> in_cset1 x (to_upper c))))"

definition wordb :: "char option \<Rightarrow> string \<Rightarrow> bool" where
  "wordb p cs \<longleftrightarrow>
     (case p of None \<Rightarrow> False | Some c \<Rightarrow> is_word c) \<noteq>
     (case cs of [] \<Rightarrow> False | c # _ \<Rightarrow> is_word c)"

text \<open>
  Greedy repetition: one more round of the body first, then stopping here. A round that
  consumes nothing ends the repetition, so at most \<open>length\<close> of the remaining text rounds
  are ever taken; that number is the bound \<open>n\<close>.
\<close>

fun star_from :: "(mstate \<Rightarrow> mstate list) \<Rightarrow> nat \<Rightarrow> mstate \<Rightarrow> mstate list" where
  "star_from f 0 st = [st]"
| "star_from f (Suc n) st =
     concat (map (\<lambda>st'. if length (snd st') < length (snd st) then star_from f n st' else [])
                 (f st)) @ [st]"

primrec rx_match :: "rx \<Rightarrow> bool \<Rightarrow> mstate \<Rightarrow> mstate list" where
  "rx_match Eps ic st = [st]"
| "rx_match (In cl) ic st =
     (case snd st of [] \<Rightarrow> []
      | c # cs \<Rightarrow> if in_cset ic cl c then [(Some c, cs)] else [])"
| "rx_match (NotIn cl) ic st =
     (case snd st of [] \<Rightarrow> []
      | c # cs \<Rightarrow> if in_cset ic cl c then [] else [(Some c, cs)])"
| "rx_match WordB ic st = (if wordb (fst st) (snd st) then [st] else [])"
| "rx_match (Seq a b) ic st = concat (map (rx_match b ic) (rx_match a ic st))"
| "rx_match (Alt a b) ic st = rx_match a ic st @ rx_match b ic st"
| "rx_match (Star a) ic st = star_from (rx_match a ic) (length (snd st)) st"

text \<open>The derived forms of the pattern syntax.\<close>

definition Lit :: "char \<Rightarrow> rx" where
  "Lit c = In [Ch c]"

definition Str :: "string \<Rightarrow> rx" where
  "Str s = foldr (\<lambda>c r. Seq (Lit c) r) s Eps"

definition Plus :: "rx \<Rightarrow> rx" where
  "Plus r = Seq r (Star r)"

definition Opt :: "rx \<Rightarrow> rx" where
  "Opt r = Alt r Eps"

fun Rep :: "nat \<Rightarrow> rx \<Rightarrow> rx" where
  "Rep 0 r = Eps"
| "Rep (Suc n) r = Seq r (Rep n r)"

definition AtLeast :: "nat \<Rightarrow> rx \<Rightarrow> rx" where
  "AtLeast n r = Seq (Rep n r) (Star r)"

fun Alts :: "rx list \<Rightarrow> rx" where
  "Alts [] = NotIn [Rg (CHR 0x00) (CHR 0xFF)]"
| "Alts [r] = r"
| "Alts (r # rs) = Alt r (Alts rs)"

fun Seqs :: "rx list \<Rightarrow> rx" where
  "Seqs [] = Eps"
| "Seqs (r # rs) = Seq r (Seqs rs)"

text \<open>\<open>re.search\<close>: is there a position of the text where the pattern matches.\<close>

fun rx_search_from :: "rx \<Rightarrow> bool \<Rightarrow> char option \<Rightarrow> string \<Rightarrow> bool" where
  "rx_search_from r ic p [] = (rx_match r ic (p, []) \<noteq> [])"
| "rx_search_from r ic p (c # cs) =
     (rx_match r ic (p, c # cs) \<noteq> [] \<or> rx_search_from r ic (Some c) cs)"

definition re_search :: "rx \<Rightarrow> bool \<Rightarrow> string \<Rightarrow> bool" where
  "re_search r ic s = rx_search_from r ic None s"

text \<open>
  The scan behind \<open>pattern.sub\<close> and \<open>pattern.findall\<close>: the text is cut, left to right,
  into characters no match covers (\<open>Inl\<close>) and the successive non-overlapping matches
  (\<open>Inr\<close>). After an empty match the scan looks for a non-empty match at the same
  position before it moves on by one character (Python 3.7 and later).
\<close>

function rx_scan :: "rx \<Rightarrow> bool \<Rightarrow> char option \<Rightarrow> string \<Rightarrow> (char + string) list" where
  "rx_scan r ic p cs =
     (case rx_match r ic (p, cs) of
        [] \<Rightarrow> (case cs of [] \<Rightarrow> [] | c # cs' \<Rightarrow> Inl c # rx_scan r ic (Some c) cs')
      | st # more \<Rightarrow>
          if length (snd st) < length cs
          then Inr (take (length cs - length (snd st)) cs) # rx_scan r ic (fst st) (snd st)
          else (case filter (\<lambda>st'. length (snd st') < length cs) more of
                  st' # _ \<Rightarrow>
                    Inr [] # Inr (take (length cs - length (snd st')) cs)
                      # rx_scan r ic (fst st') (snd st')
                | [] \<Rightarrow> (case cs of [] \<Rightarrow> [Inr []]
                         | c # cs' \<Rightarrow> Inr [] # Inl c # rx_scan r ic (Some c) cs')))"
  by pat_completeness auto
termination
  by (relation "measure (\<lambda>(r, ic, p, cs). length cs)")
     (auto simp: case_prod_beta filter_eq_Cons_iff)

definition re_sub :: "rx \<Rightarrow> bool \<Rightarrow> string \<Rightarrow> string \<Rightarrow> string" where
  "re_sub r ic repl s =
     concat (map (\<lambda>t. case t of Inl c \<Rightarrow> [c] | Inr m \<Rightarrow> repl) (rx_scan r ic None s))"

definition re_findall_len :: "rx \<Rightarrow> bool \<Rightarrow> string \<Rightarrow> nat" where
  "re_findall_len r ic s = length (filter (\<lambda>t. case t of Inl c \<Rightarrow> False | Inr m \<Rightarrow> True) (rx_scan r ic None s))"

section \<open>The anonymizer (app/utils/anonymizer.py)\<close>

definition digit :: rx where
  "digit = In [Dg]"

definition space :: rx where
  "space = In [Sp]"

text \<open>\<^verbatim>\<open>\b\d{3}[-.]?\d{3}[-.]?\d{4}\b\<close>\<close>

definition PHONE_PATTERN :: rx where
  "PHONE_PATTERN =
     Seqs [WordB, Rep 3 digit, Opt (In [Ch CHR ''-'', Ch CHR ''.'']), Rep 3 digit,
           Opt (In [Ch CHR ''-'', Ch CHR ''.'']), Rep 4 digit, WordB]"

text \<open>\<^verbatim>\<open>\b[A-Za-z0-9._%+-]+@[A-Za-z0-9.-]+\.[A-Z|a-z]{2,}\b\<close>\<close>

definition EMAIL_PATTERN :: rx where
  "EMAIL_PATTERN =
     Seqs [WordB,
           Plus (In [Rg CHR ''A'' CHR ''Z'', Rg CHR ''a'' CHR ''z'', Rg CHR ''0'' CHR ''9'',
                     Ch CHR ''.'', Ch CHR ''_'', Ch CHR ''%'', Ch CHR ''+'', Ch CHR ''-'']),
           Lit CHR ''@'',
           Plus (In [Rg CHR ''A'' CHR ''Z'', Rg CHR ''a'' CHR ''z'', Rg CHR ''0'' CHR ''9'',
                     Ch CHR ''.'', Ch CHR ''-'']),
           Lit CHR ''.'',
           AtLeast 2 (In [Rg CHR ''A'' CHR ''Z'', Ch CHR ''|'', Rg CHR ''a'' CHR ''z'']),
           WordB]"

text \<open>\<^verbatim>\<open>\b\d{3}-\d{2}-\d{4}\b\<close>\<close>

definition SSN_PATTERN :: rx where
  "SSN_PATTERN =
     Seqs [WordB, Rep 3 digit, Lit CHR ''-'', Rep 2 digit, Lit CHR ''-'', Rep 4 digit, WordB]"

text \<open>\<^verbatim>\<open>\b\d{4}[\s-]?\d{4}[\s-]?\d{4}[\s-]?\d{4}\b\<close>\<close>

definition CREDIT_CARD_PATTERN :: rx where
  "CREDIT_CARD_PATTERN =
     Seqs [WordB, Rep 4 digit, Opt (In [Sp, Ch CHR ''-'']), Rep 4 digit,
           Opt (In [Sp, Ch CHR ''-'']), Rep 4 digit, Opt (In [Sp, Ch CHR ''-'']),
           Rep 4 digit, WordB]"

text \<open>\<^verbatim>\<open>https?://[^\s]+\<close>\<close>

definition URL_PATTERN :: rx where
  "URL_PATTERN = Seqs [Str ''http'', Opt (Lit CHR ''s''), Str ''://'', Plus (NotIn [Sp])]"

definition NAME_TITLES :: "string list" where
  "NAME_TITLES = [''mr'', ''mrs'', ''ms'', ''dr'', ''prof'', ''miss'']"

text \<open>\<^verbatim>\<open>[A-Z][a-z]+(?:\s+[A-Z][a-z]+)*\<close>, the capitalised words of a name or a street.\<close>

definition cap_words :: rx where
  "cap_words =
     Seqs [In [Rg CHR ''A'' CHR ''Z''], Plus (In [Rg CHR ''a'' CHR ''z'']),
           Star (Seqs [Plus space, In [Rg CHR ''A'' CHR ''Z''], Plus (In [Rg CHR ''a'' CHR ''z''])])]"

text \<open>\<^verbatim>\<open>\b{title}\.?\s+[A-Z][a-z]+(?:\s+[A-Z][a-z]+)*\b\<close>, compiled with \<open>re.IGNORECASE\<close>.\<close>

definition title_pattern :: "string \<Rightarrow> rx" where
  "title_pattern title = Seqs [WordB, Str title, Opt (Lit CHR ''.''), Plus space, cap_words, WordB]"

text \<open>
  \<^verbatim>\<open>\b\d+\s+[A-Z][a-z]+(?:\s+[A-Z][a-z]+)*\s+(<suffixes>)\b\<close>, compiled with
  \<open>re.IGNORECASE\<close>; \<open>anonymize_text\<close> and \<open>detect_pii\<close> each build it with their own
  list of street suffixes.
\<close>

definition address_pattern :: "string list \<Rightarrow> rx" where
  "address_pattern suffixes =
     Seqs [WordB, Plus digit, Plus space, cap_words, Plus space, Alts (map Str suffixes), WordB]"

definition anonymize_suffixes :: "string list" where
  "anonymize_suffixes =
     [''Street'', ''St'', ''Avenue'', ''Ave'', ''Road'', ''Rd'', ''Boulevard'', ''Blvd'',
      ''Lane'', ''Ln'', ''Drive'', ''Dr'']"

definition detect_suffixes :: "string list" where
  "detect_suffixes = [''Street'', ''St'', ''Avenue'', ''Ave'', ''Road'', ''Rd'']"

definition anonymize_text :: "string \<Rightarrow> string" where
  "anonymize_text text =
     (if text = [] then text
      else
        let text = re_sub PHONE_PATTERN False ''[PHONE]'' text;
            text = re_sub EMAIL_PATTERN False ''[EMAIL]'' text;
            text = re_sub SSN_PATTERN False ''[SSN]'' text;
            text = re_sub CREDIT_CARD_PATTERN False ''[CREDIT_CARD]'' text;
            text = re_sub URL_PATTERN False ''[URL]'' text;
            text = foldl (\<lambda>text title.
                            re_sub (title_pattern title) True (''['' @ upper title @ '']'') text)
                     text NAME_TITLES
        in re_sub (address_pattern anonymize_suffixes) True ''[ADDRESS]'' text)"

record pii_report =
  has_pii :: bool
  phone_numbers :: nat
  emails :: nat
  ssn :: nat
  credit_cards :: nat
  urls :: nat
  addresses :: nat

definition detect_pii :: "string \<Rightarrow> pii_report" where
  "detect_pii text =
     (let pii_detected = \<lparr>has_pii = False, phone_numbers = 0, emails = 0, ssn = 0,
                           credit_cards = 0, urls = 0, addresses = 0\<rparr>
      in if text = [] then pii_detected
         else
           let pii_detected = pii_detected\<lparr>phone_numbers := re_findall_len PHONE_PATTERN False text\<rparr>;
               pii_detected = pii_detected\<lparr>emails := re_findall_len EMAIL_PATTERN False text\<rparr>;
               pii_detected = pii_detected\<lparr>ssn := re_findall_len SSN_PATTERN False text\<rparr>;
               pii_detected = pii_detected\<lparr>credit_cards := re_findall_len CREDIT_CARD_PATTERN False text\<rparr>;
               pii_detected = pii_detected\<lparr>urls := re_findall_len URL_PATTERN False text\<rparr>;
               pii_detected = pii_detected\<lparr>addresses :=
                                re_findall_len (address_pattern detect_suffixes) True text\<rparr>
           in pii_detected\<lparr>has_pii :=
                phone_numbers pii_detected > 0 \<or> emails pii_detected > 0 \<or> ssn pii_detected > 0 \<or>
                credit_cards pii_detected > 0 \<or> urls pii_detected > 0 \<or> addresses pii_detected > 0\<rparr>)"

section \<open>The response validator (app/utils/response_validator.py)\<close>

record ResponseValidationResult =
  is_valid :: bool
  errors :: "string list"
  warnings :: "string list"
  severity :: string

text \<open>
  Each pattern is kept with its source text, which the validator quotes in its messages.
  All of them start with \<open>(?i)\<close>: they are matched ignoring case.
\<close>

definition HARMFUL_PATTERNS :: "(string \<times> rx) list" where
  "HARMFUL_PATTERNS =
     [(''(?i)'' @ [CHR 0x5C] @ ''b(kill|suicide|self-harm|overdose)'' @ [CHR 0x5C] @ ''b'',
       Seqs [WordB, Alts (map Str [''kill'', ''suicide'', ''self-harm'', ''overdose'']), WordB]),
      (''(?i)'' @ [CHR 0x5C] @ ''b(ignore medical advice|don't call|skip)'' @ [CHR 0x5C]
         @ ''s+(doctor|hospital|911|emergency)'',
       Seqs [WordB, Alts (map Str [''ignore medical advice'', ''don't call'', ''skip'']),
             Plus space, Alts (map Str [''doctor'', ''hospital'', ''911'', ''emergency''])]),
      (''(?i)'' @ [CHR 0x5C] @ ''bguaranteed?'' @ [CHR 0x5C] @ ''s+(cure|recovery|success)''
         @ [CHR 0x5C] @ ''b'',
       Seqs [WordB, Str ''guarantee'', Opt (Lit CHR ''d''), Plus space,
             Alts (map Str [''cure'', ''recovery'', ''success'']), WordB])]"

definition REQUIRED_DISCLAIMER_KEYWORDS :: "string list" where
  "REQUIRED_DISCLAIMER_KEYWORDS =
     [''not a substitute'', ''professional medical'', ''emergency services'', ''911'']"

definition misinformation_patterns :: "(string \<times> rx) list" where
  "misinformation_patterns =
     [(''(?i)'' @ [CHR 0x5C] @ ''balways'' @ [CHR 0x5C] @ ''s+(safe|works|effective)''
         @ [CHR 0x5C] @ ''b'',
       Seqs [WordB, Str ''always'', Plus space,
             Alts (map Str [''safe'', ''works'', ''effective'']), WordB]),
      (''(?i)'' @ [CHR 0x5C] @ ''bnever'' @ [CHR 0x5C] @ ''s+(dangerous|harmful|risky)''
         @ [CHR 0x5C] @ ''b'',
       Seqs [WordB, Str ''never'', Plus space,
             Alts (map Str [''dangerous'', ''harmful'', ''risky'']), WordB]),
      (''(?i)'' @ [CHR 0x5C] @ ''b100%'' @ [CHR 0x5C] @ ''s+(safe|effective|certain)''
         @ [CHR 0x5C] @ ''b'',
       Seqs [WordB, Str ''100%'', Plus space,
             Alts (map Str [''safe'', ''effective'', ''certain'']), WordB])]"

text \<open>\<^verbatim>\<open>(?i)\b(severe|critical|life-threatening|serious)\b\<close>\<close>

definition severe_pattern :: rx where
  "severe_pattern =
     Seqs [WordB, Alts (map Str [''severe'', ''critical'', ''life-threatening'', ''serious'']),
           WordB]"

text \<open>\<^verbatim>\<open>(?i)\b(call|contact|emergency|911|ambulance)\b\<close>\<close>

definition call_to_action_pattern :: rx where
  "call_to_action_pattern =
     Seqs [WordB, Alts (map Str [''call'', ''contact'', ''emergency'', ''911'', ''ambulance'']),
           WordB]"

definition disclaimer_warning :: string where
  "disclaimer_warning = ''Response should include appropriate medical disclaimer''"

text \<open>The body of the loop over \<open>HARMFUL_PATTERNS\<close>.\<close>

definition harmful_step ::
  "string \<Rightarrow> ResponseValidationResult \<Rightarrow> string \<times> rx \<Rightarrow> ResponseValidationResult" where
  "harmful_step response_text result pat =
     (if re_search (snd pat) True response_text
      then result\<lparr>errors := errors result @ [''Potentially harmful content detected: '' @ fst pat],
                  is_valid := False, severity := ''error''\<rparr>
      else result)"

text \<open>
  The disclaimer check. \<open>has_disclaimer\<close> is
  \<open>any(keyword.lower() in response_text.lower() for keyword in REQUIRED_DISCLAIMER_KEYWORDS[:2])\<close>.
\<close>

definition has_keyword :: "string \<Rightarrow> string \<Rightarrow> bool" where
  "has_keyword response_text keyword \<longleftrightarrow> contains (lower keyword) (lower response_text)"

definition has_disclaimer :: "string \<Rightarrow> bool" where
  "has_disclaimer response_text \<longleftrightarrow>
     list_ex (has_keyword response_text) (take 2 REQUIRED_DISCLAIMER_KEYWORDS)"

definition disclaimer_step ::
  "string \<Rightarrow> bool \<Rightarrow> ResponseValidationResult \<Rightarrow> ResponseValidationResult" where
  "disclaimer_step response_text require_disclaimer result =
     (if require_disclaimer \<and> \<not> has_disclaimer response_text
      then result\<lparr>warnings := warnings result @ [disclaimer_warning],
                  severity := (if severity result \<noteq> ''error'' then ''warning'' else ''error'')\<rparr>
      else result)"

definition length_step :: "string \<Rightarrow> ResponseValidationResult \<Rightarrow> ResponseValidationResult" where
  "length_step response_text result =
     (if length response_text < 50
      then result\<lparr>warnings := warnings result @ [''Response may be too brief'']\<rparr>
      else if length response_text > 5000
      then result\<lparr>warnings := warnings result @ [''Response may be too verbose'']\<rparr>
      else result)"

text \<open>The body of the loop over \<open>misinformation_patterns\<close>.\<close>

definition misinformation_step ::
  "string \<Rightarrow> ResponseValidationResult \<Rightarrow> string \<times> rx \<Rightarrow> ResponseValidationResult" where
  "misinformation_step response_text result pat =
     (if re_search (snd pat) True response_text
      then result\<lparr>warnings := warnings result @ [''Overly definitive language detected: '' @ fst pat]\<rparr>
      else result)"

definition call_to_action_warning :: string where
  "call_to_action_warning =
     ''Severe emergency detected but no call to action for emergency services''"

definition call_to_action_step ::
  "string \<Rightarrow> string \<Rightarrow> ResponseValidationResult \<Rightarrow> ResponseValidationResult" where
  "call_to_action_step response_text response_type result =
     (if response_type = ''assessment''
         \<and> re_search severe_pattern True response_text
         \<and> \<not> re_search call_to_action_pattern True response_text
      then result\<lparr>warnings := warnings result @ [call_to_action_warning]\<rparr>
      else result)"

definition validate_llm_response ::
  "string \<Rightarrow> string \<Rightarrow> bool \<Rightarrow> ResponseValidationResult" where
  "validate_llm_response response_text response_type require_disclaimer =
     (let result = \<lparr>is_valid = True, errors = [], warnings = [], severity = ''info''\<rparr>
      in if response_text = [] \<or> length (strip response_text) = 0
         then result\<lparr>is_valid := False, errors := errors result @ [''Response is empty''],
                     severity := ''error''\<rparr>
         else
           let result = foldl (harmful_step response_text) result HARMFUL_PATTERNS;
               result = disclaimer_step response_text require_disclaimer result;
               result = length_step response_text result;
               result = foldl (misinformation_step response_text) result misinformation_patterns
           in call_to_action_step response_text response_type result)"

text \<open>\<open>sanitize_response\<close>: tags, runs of whitespace, then SSN- and phone-shaped text.\<close>

definition sanitize_response :: "string \<Rightarrow> string" where
  "sanitize_response response_text =
     (let response_text =
            re_sub (Seqs [Lit CHR ''<'', Plus (NotIn [Ch CHR ''>'']), Lit CHR ''>'']) False []
              response_text;
          response_text = strip (re_sub (Plus space) False '' '' response_text);
          response_text = re_sub SSN_PATTERN False ''[REDACTED]'' response_text
      in re_sub PHONE_PATTERN False ''[REDACTED]'' response_text)"

text \<open>
  How many of the four disclaimer keywords a text contains, ignoring case: the measure
  the specification's disclaimer rule is worded with.
\<close>

definition keyword_count :: "string \<Rightarrow> nat" where
  "keyword_count response_text =
     length (filter (has_keyword response_text) REQUIRED_DISCLAIMER_KEYWORDS)"

section \<open>The data model (app/models/emergency_context.py)\<close>

datatype EmergencyType = MEDICAL | ACCIDENT | FIRE | VIOLENCE | NATURAL_DISASTER | OTHER

text \<open>The \<open>.value\<close> of a member of the string enumeration.\<close>

fun type_value :: "EmergencyType \<Rightarrow> string" where
  "type_value MEDICAL = ''medical''"
| "type_value ACCIDENT = ''accident''"
| "type_value FIRE = ''fire''"
| "type_value VIOLENCE = ''violence''"
| "type_value NATURAL_DISASTER = ''natural_disaster''"
| "type_value OTHER = ''other''"

datatype SeverityLevel = CRITICAL | HIGH | MEDIUM | LOW

record FirstAidStep =
  step_number :: nat
  instruction :: string
  step_warnings :: "string list"
  duration :: "string option"

section \<open>The fallback service (app/services/fallback_service.py)\<close>

text \<open>A row of \<open>FALLBACK_ASSESSMENTS\<close>: the dictionary with the four keys below.\<close>

record fallback_assessment =
  severity_level :: SeverityLevel
  assessment :: string
  recommendations :: "string list"
  call_emergency_services :: bool

definition FALLBACK_ASSESSMENTS :: "EmergencyType \<rightharpoonup> fallback_assessment" where
  "FALLBACK_ASSESSMENTS =
     [MEDICAL \<mapsto>
        \<lparr>severity_level = HIGH,
         assessment = ''This appears to be a medical emergency. Immediate professional help is recommended.'',
         recommendations =
           [''Call 911 or local emergency services immediately'',
            ''Stay calm and keep the person comfortable'',
            ''Do not move the person unless there is immediate danger'',
            ''Monitor vital signs (breathing, pulse) if possible'',
            ''Provide emergency information to responders when they arrive''],
         call_emergency_services = True\<rparr>,
      ACCIDENT \<mapsto>
        \<lparr>severity_level = HIGH,
         assessment = ''Accident situations can involve serious injuries. Professional emergency response is needed.'',
         recommendations =
           [''Call 911 immediately'',
            ''Ensure the scene is safe before providing assistance'',
            ''Do not move injured persons unless there is immediate danger'',
            ''Apply pressure to any bleeding wounds with clean cloth'',
            ''Keep injured persons calm and still''],
         call_emergency_services = True\<rparr>,
      FIRE \<mapsto>
        \<lparr>severity_level = CRITICAL,
         assessment = ''Fire is a critical emergency requiring immediate evacuation and professional response.'',
         recommendations =
           [''Call 911 immediately'',
            ''Evacuate the building using the nearest safe exit'',
            ''Do not use elevators'',
            ''Stay low to avoid smoke inhalation'',
            ''Do not re-enter the building for any reason''],
         call_emergency_services = True\<rparr>,
      VIOLENCE \<mapsto>
        \<lparr>severity_level = CRITICAL,
         assessment = ''Violence situations require immediate law enforcement response. Your safety is the priority.'',
         recommendations =
           [''Call 911 immediately if safe to do so'',
            ''Remove yourself from danger if possible'',
            ''Do not confront the aggressor'',
            ''Seek shelter in a safe location'',
            ''Follow law enforcement instructions when they arrive''],
         call_emergency_services = True\<rparr>,
      NATURAL_DISASTER \<mapsto>
        \<lparr>severity_level = CRITICAL,
         assessment = ''Natural disasters require immediate safety measures and emergency response coordination.'',
         recommendations =
           [''Follow local emergency broadcast instructions'',
            ''Seek appropriate shelter immediately'',
            ''Stay away from windows, doors, and external walls'',
            ''Have emergency supplies ready (water, food, first aid)'',
            ''Do not venture outside until authorities declare it safe''],
         call_emergency_services = True\<rparr>]"

definition FALLBACK_FIRST_AID :: "EmergencyType \<rightharpoonup> FirstAidStep list" where
  "FALLBACK_FIRST_AID =
     [MEDICAL \<mapsto>
        [\<lparr>step_number = 1, instruction = ''Call 911 or emergency services immediately'',
          step_warnings = [''Do not delay emergency call''], duration = Some ''Immediately''\<rparr>,
         \<lparr>step_number = 2, instruction = ''Keep the person calm and comfortable'',
          step_warnings = [''Do not give food or drinks unless instructed''],
          duration = Some ''Until help arrives''\<rparr>,
         \<lparr>step_number = 3, instruction = ''Monitor breathing and consciousness'',
          step_warnings = [''Be prepared to perform CPR if trained''],
          duration = Some ''Continuously''\<rparr>,
         \<lparr>step_number = 4,
          instruction = ''Gather medical information (medications, allergies, conditions)'',
          step_warnings = [''Have this ready for emergency responders''],
          duration = Some ''While waiting''\<rparr>],
      ACCIDENT \<mapsto>
        [\<lparr>step_number = 1, instruction = ''Ensure scene safety before approaching'',
          step_warnings = [''Do not put yourself in danger''], duration = Some ''First priority''\<rparr>,
         \<lparr>step_number = 2, instruction = ''Call 911 immediately'',
          step_warnings = [''Provide clear location and injury description''],
          duration = Some ''Immediately''\<rparr>,
         \<lparr>step_number = 3, instruction = ''Apply direct pressure to any bleeding wounds'',
          step_warnings = [''Use clean cloth or gauze'', ''Do not remove objects embedded in wounds''],
          duration = Some ''Until bleeding stops or help arrives''\<rparr>,
         \<lparr>step_number = 4, instruction = ''Keep injured person still'',
          step_warnings = [''Do not move unless immediate danger'',
                           ''Suspect spinal injury in serious accidents''],
          duration = Some ''Until professional help arrives''\<rparr>]]"

text \<open>\<open>dict.get(emergency_type, default)\<close>: the row of the table, or the generic one.\<close>

definition get_fallback_assessment :: "EmergencyType \<Rightarrow> fallback_assessment" where
  "get_fallback_assessment emergency_type =
     (case FALLBACK_ASSESSMENTS emergency_type of
        Some row \<Rightarrow> row
      | None \<Rightarrow>
          \<lparr>severity_level = HIGH,
           assessment = ''This is an emergency situation requiring professional help.'',
           recommendations =
             [''Call 911 or local emergency services'',
              ''Stay safe and calm'',
              ''Wait for professional assistance''],
           call_emergency_services = True\<rparr>)"

definition get_fallback_first_aid :: "EmergencyType \<Rightarrow> FirstAidStep list" where
  "get_fallback_first_aid emergency_type =
     (case FALLBACK_FIRST_AID emergency_type of
        Some steps \<Rightarrow> steps
      | None \<Rightarrow>
          [\<lparr>step_number = 1, instruction = ''Call 911 or emergency services immediately'',
            step_warnings = [''Do not attempt advanced procedures without training''],
            duration = Some ''Immediately''\<rparr>,
           \<lparr>step_number = 2, instruction = ''Keep yourself and others safe'',
            step_warnings = [''Assess the situation before acting''], duration = Some ''Ongoing''\<rparr>,
           \<lparr>step_number = 3, instruction = ''Provide comfort and reassurance'',
            step_warnings = [''Do not move injured persons unnecessarily''],
            duration = Some ''Until help arrives''\<rparr>])"

definition type_specific_warnings :: "EmergencyType \<rightharpoonup> string list" where
  "type_specific_warnings =
     [MEDICAL \<mapsto> [''Do not give medications unless prescribed'',
                  ''Do not give food or drink to unconscious persons''],
      FIRE \<mapsto> [''Never re-enter a burning building'', ''Crawl low under smoke''],
      VIOLENCE \<mapsto> [''Your safety is the top priority'', ''Do not confront violent individuals'']]"

definition get_critical_warnings :: "EmergencyType \<Rightarrow> string list" where
  "get_critical_warnings emergency_type =
     [''Always call 911 for serious emergencies'',
      ''Do not provide care beyond your training level'',
      ''Prioritize scene safety for yourself and others'']
     @ (case type_specific_warnings emergency_type of Some ws \<Rightarrow> ws | None \<Rightarrow> [])"

section \<open>The orchestrator (app/services/llm_orchestrator.py)\<close>

text \<open>
  A provider client is known by its \<open>ainvoke\<close> only: given the system and the user
  message it returns the text of the response, or raises (\<open>None\<close>). A provider that
  is not configured is absent from the orchestrator.
\<close>

type_synonym llm = "string \<times> string \<Rightarrow> string option"

record LLMOrchestrator =
  primary_llm :: "llm option"
  fallback_llm :: "llm option"

datatype provider = Primary | Fallback

datatype orchestrator_error = AllProvidersFailed | NoProvidersAvailable

text \<open>
  \<open>generate_response\<close> returns the providers it invoked, in order, and either the text
  or the exception it raises: \<open>"All LLM providers failed"\<close> or
  \<open>"No LLM providers available"\<close>.
\<close>

definition generate_response ::
  "LLMOrchestrator \<Rightarrow> string \<Rightarrow> string \<Rightarrow> bool \<Rightarrow> provider list \<times> (orchestrator_error + string)" where
  "generate_response self system_prompt user_prompt use_fallback =
     (let messages = (system_prompt, user_prompt);
          first_try =
            (if \<not> use_fallback
             then (case primary_llm self of
                     Some llm \<Rightarrow> ([Primary], llm messages)
                   | None \<Rightarrow> ([], None))
             else ([], None))
      in case snd first_try of
           Some content \<Rightarrow> (fst first_try, Inr content)
         | None \<Rightarrow>
             (case fallback_llm self of
                Some llm \<Rightarrow>
                  (case llm messages of
                     Some content \<Rightarrow> (fst first_try @ [Fallback], Inr content)
                   | None \<Rightarrow> (fst first_try @ [Fallback], Inl AllProvidersFailed))
              | None \<Rightarrow> (fst first_try, Inl NoProvidersAvailable)))"

section \<open>Emergency contexts as objects\<close>

text \<open>
  A context is an object that refers to its location and its medical profile, which are
  objects of their own; \<open>anonymize_emergency_context\<close> copies a context and then assigns
  to attributes of the copy and of the copy's location. The store holds the objects of
  each class in a list, the index of an object being its identity; creating an object
  appends it. The record of a context is parametric in how the nested objects are given:
  by reference in the store, by value when a context is read out of it.
\<close>

type_synonym ref = nat

record Location =
  latitude :: "real option"
  longitude :: "real option"
  address :: "string option"
  city :: "string option"
  country :: "string option"

record MedicalProfile =
  blood_type :: "string option"
  allergies :: "string list"
  medical_conditions :: "string list"
  medications :: "string list"
  age_range :: "string option"

record ('l, 'm) EmergencyContext =
  emergency_id :: string
  emergency_type :: EmergencyType
  description :: string
  location :: "'l option"
  medical_profile :: "'m option"
  timestamp :: nat
  additional_info :: "string option"

type_synonym context_object = "(ref, ref) EmergencyContext"

type_synonym context_value = "(Location, MedicalProfile) EmergencyContext"

record store =
  contexts :: "context_object list"
  locations :: "Location list"
  profiles :: "MedicalProfile list"

text \<open>The references of the context at \<open>a\<close> point into the store.\<close>

definition valid_context :: "store \<Rightarrow> ref \<Rightarrow> bool" where
  "valid_context s a \<longleftrightarrow>
     a < length (contexts s)
     \<and> (case location (contexts s ! a) of None \<Rightarrow> True | Some l \<Rightarrow> l < length (locations s))
     \<and> (case medical_profile (contexts s ! a) of None \<Rightarrow> True | Some m \<Rightarrow> m < length (profiles s))"

text \<open>Reading a context out of the store, nested objects by value.\<close>

definition context_at :: "store \<Rightarrow> ref \<Rightarrow> context_value" where
  "context_at s a =
     (let c = contexts s ! a
      in \<lparr>emergency_id = emergency_id c, emergency_type = emergency_type c,
          description = description c,
          location = map_option (\<lambda>l. locations s ! l) (location c),
          medical_profile = map_option (\<lambda>m. profiles s ! m) (medical_profile c),
          timestamp = timestamp c, additional_info = additional_info c\<rparr>)"

text \<open>
  \<open>context.model_copy(deep=True)\<close>: a new context object whose location and medical
  profile are new objects with the same field values.
\<close>

definition model_copy_deep :: "store \<Rightarrow> ref \<Rightarrow> ref \<times> store" where
  "model_copy_deep s a =
     (let c = contexts s ! a;
          new_location = map_option (\<lambda>l. length (locations s)) (location c);
          s = (case location c of None \<Rightarrow> s
               | Some l \<Rightarrow> s\<lparr>locations := locations s @ [locations s ! l]\<rparr>);
          new_profile = map_option (\<lambda>m. length (profiles s)) (medical_profile c);
          s = (case medical_profile c of None \<Rightarrow> s
               | Some m \<Rightarrow> s\<lparr>profiles := profiles s @ [profiles s ! m]\<rparr>)
      in (length (contexts s),
          s\<lparr>contexts := contexts s @ [c\<lparr>location := new_location, medical_profile := new_profile\<rparr>]\<rparr>))"

text \<open>Python's truth value of an optional string: neither \<open>None\<close> nor empty.\<close>

fun truthy :: "string option \<Rightarrow> bool" where
  "truthy None = False"
| "truthy (Some s) = (s \<noteq> [])"

text \<open>Assignments to an attribute of the object a reference names.\<close>

definition update_context :: "ref \<Rightarrow> (context_object \<Rightarrow> context_object) \<Rightarrow> store \<Rightarrow> store" where
  "update_context a f s = s\<lparr>contexts := (contexts s)[a := f (contexts s ! a)]\<rparr>"

definition update_location :: "ref \<Rightarrow> (Location \<Rightarrow> Location) \<Rightarrow> store \<Rightarrow> store" where
  "update_location l f s = s\<lparr>locations := (locations s)[l := f (locations s ! l)]\<rparr>"

text \<open>
  \<open>anonymize_emergency_context\<close> returns the reference of the anonymized copy and the
  store after its assignments. \<open>anonymized.location\<close> is read from the copy, the
  conditions and the texts to anonymize from \<open>context\<close>, as in the source.
\<close>

definition anonymize_emergency_context :: "store \<Rightarrow> ref \<Rightarrow> ref \<times> store" where
  "anonymize_emergency_context s context =
     (let (anonymized, s) = model_copy_deep s context;
          s = update_context anonymized
                (\<lambda>c. c\<lparr>description := anonymize_text (description (contexts s ! context))\<rparr>) s;
          s = (if truthy (additional_info (contexts s ! context))
               then update_context anonymized
                      (\<lambda>c. c\<lparr>additional_info :=
                               map_option anonymize_text (additional_info (contexts s ! context))\<rparr>) s
               else s);
          s = (case location (contexts s ! context) of
                 None \<Rightarrow> s
               | Some l \<Rightarrow>
                   (case location (contexts s ! anonymized) of
                      None \<Rightarrow> s
                    | Some l' \<Rightarrow>
                        let s = (if truthy (address (locations s ! l))
                                 then update_location l' (\<lambda>x. x\<lparr>address := Some ''[ADDRESS]''\<rparr>) s
                                 else s);
                            s = update_location l' (\<lambda>x. x\<lparr>latitude := None\<rparr>) s
                        in update_location l' (\<lambda>x. x\<lparr>longitude := None\<rparr>) s))
      in (anonymized, s))"

text \<open>
  What \<open>anonymize_emergency_context\<close> is to make of a context, on values: the spec's
  \<open>anonymize(context) -> context'\<close>.
\<close>

definition anonymized_value :: "context_value \<Rightarrow> context_value" where
  "anonymized_value c =
     c\<lparr>description := anonymize_text (description c),
       additional_info :=
         (if truthy (additional_info c) then map_option anonymize_text (additional_info c)
          else additional_info c),
       location :=
         map_option
           (\<lambda>x. x\<lparr>address := (if truthy (address x) then Some ''[ADDRESS]'' else address x),
                  latitude := None, longitude := None\<rparr>)
           (location c)\<rparr>"

text \<open>A store with one context, which has a location and no medical profile.\<close>

definition example_store :: store where
  "example_store =
     \<lparr>contexts =
        [\<lparr>emergency_id = ''e-7'', emergency_type = MEDICAL,
          description = ''Call me at 555-123-4567'', location = Some 0,
          medical_profile = None, timestamp = 0, additional_info = Some ''mail a@b.com''\<rparr>],
      locations =
        [\<lparr>latitude = Some 37, longitude = Some (-122), address = Some ''123 Main Street'',
          city = Some ''San Francisco'', country = None\<rparr>],
      profiles = []\<rparr>"

section \<open>The parsers of the routes (app/routes/llm_routes.py)\<close>

text \<open>
  The dictionary \<open>_parse_assessment_response\<close> builds has the four keys of a fallback
  assessment and \<open>success\<close> and \<open>emergency_id\<close>.
\<close>

record assessment_data = fallback_assessment +
  success :: bool
  response_emergency_id :: string

definition newline :: char where
  "newline = CHR 0x0A"

text \<open>\<open>s.lstrip(chars)\<close>\<close>

definition lstrip_chars :: "string \<Rightarrow> string \<Rightarrow> string" where
  "lstrip_chars chars s = dropWhile (\<lambda>c. c \<in> set chars) s"

text \<open>
  The body of the loop over the lines of an assessment: the recommendation a line
  contributes, if any. The bullet character U+2022 the source also accepts is not an
  ASCII character and has no counterpart here.
\<close>

definition recommendation_of_line :: "string \<Rightarrow> string option" where
  "recommendation_of_line line0 =
     (let line = strip line0
      in if line \<noteq> [] \<and> (starts_with ''-'' line \<or> is_digit (hd line))
         then (let clean_line = strip (lstrip_chars ''-0123456789. '' line)
               in if clean_line \<noteq> [] then Some clean_line else None)
         else None)"

definition parse_assessment_response :: "string \<Rightarrow> context_value \<Rightarrow> assessment_data" where
  "parse_assessment_response llm_response context =
     (let severity =
            (if contains ''CRITICAL'' (upper llm_response) then CRITICAL
             else if contains ''MEDIUM'' (upper llm_response) then MEDIUM
             else if contains ''LOW'' (upper llm_response) then LOW
             else HIGH);
          call_emergency = (contains ''YES'' (upper llm_response) \<or> contains ''911'' llm_response);
          recommendations = List.map_filter recommendation_of_line (split_on newline llm_response);
          recommendations =
            (if recommendations = []
             then [''Call emergency services if the situation worsens'',
                   ''Monitor the person's condition closely'',
                   ''Keep the person calm and comfortable'']
             else recommendations)
      in \<lparr>severity_level = severity,
          assessment = take 500 llm_response,
          recommendations = take 5 recommendations,
          call_emergency_services = call_emergency,
          success = True,
          response_emergency_id = emergency_id context\<rparr>)"

text \<open>
  The state of the loop of \<open>_parse_first_aid_response\<close>: the steps closed so far, the
  step that is open, and the list the source calls \<open>warnings\<close>, the top-level critical
  warnings.
\<close>

record parse_state =
  steps :: "FirstAidStep list"
  current_step :: "FirstAidStep option"
  top_warnings :: "string list"

definition is_step_header :: "string \<Rightarrow> bool" where
  "is_step_header line \<longleftrightarrow> contains ''step'' (lower line) \<and> CHR '':'' \<in> set line"

definition is_critical_warning :: "string \<Rightarrow> bool" where
  "is_critical_warning line \<longleftrightarrow> contains ''critical warning'' (lower line)"

text \<open>One round of the loop, on a line that is already stripped; the branches in the source's order.\<close>

definition parse_line :: "parse_state \<Rightarrow> string \<Rightarrow> parse_state" where
  "parse_line st line =
     (if is_step_header line
      then (let closed = (case current_step st of
                            Some step \<Rightarrow> steps st @ [step]
                          | None \<Rightarrow> steps st)
            in st\<lparr>steps := closed,
                  current_step := Some \<lparr>step_number = length closed + 1,
                                         instruction = after_colon line,
                                         step_warnings = [], duration = None\<rparr>\<rparr>)
      else if contains ''warning'' (lower line) \<and> current_step st \<noteq> None
      then st\<lparr>current_step :=
                map_option (\<lambda>step. step\<lparr>step_warnings := step_warnings step @ [after_colon line]\<rparr>)
                  (current_step st)\<rparr>
      else if contains ''duration'' (lower line) \<and> current_step st \<noteq> None
      then st\<lparr>current_step :=
                map_option (\<lambda>step. step\<lparr>duration := Some (after_colon line)\<rparr>) (current_step st)\<rparr>
      else if is_critical_warning line
      then st\<lparr>top_warnings := top_warnings st @ [line]\<rparr>
      else st)"

definition parse_lines :: "string list \<Rightarrow> parse_state" where
  "parse_lines lines =
     foldl parse_line \<lparr>steps = [], current_step = None, top_warnings = []\<rparr> lines"

text \<open>The lines the loop sees: \<open>llm_response.split("\n")\<close>, each stripped.\<close>

definition response_lines :: "string \<Rightarrow> string list" where
  "response_lines llm_response = map strip (split_on newline llm_response)"

record first_aid_data =
  fa_success :: bool
  fa_emergency_id :: string
  fa_emergency_type :: EmergencyType
  fa_steps :: "FirstAidStep list"
  critical_warnings :: "string list"
  when_to_stop :: string

definition parse_first_aid_response :: "string \<Rightarrow> context_value \<Rightarrow> first_aid_data" where
  "parse_first_aid_response llm_response context =
     (let st = parse_lines (response_lines llm_response);
          steps = (case current_step st of
                     Some step \<Rightarrow> steps st @ [step]
                   | None \<Rightarrow> steps st);
          steps = (if steps = [] then get_fallback_first_aid (emergency_type context) else steps)
      in \<lparr>fa_success = True,
          fa_emergency_id = emergency_id context,
          fa_emergency_type = emergency_type context,
          fa_steps = take 10 steps,
          critical_warnings =
            (if top_warnings st \<noteq> [] then take 5 (top_warnings st)
             else [''Always prioritize safety'']),
          when_to_stop = ''Stop immediately if the person's condition worsens or you feel unsafe.''\<rparr>)"


section \<open>The cache (app/cache/redis_cache.py)\<close>

unbundle bit_operations_syntax

subsection \<open>hashlib.md5\<close>

text \<open>
  \<open>hashlib.md5(data).hexdigest()\<close> belongs to Python's library; it is given here as
  RFC 1321 defines it: the message padded to whole 64-byte blocks, each block mixed into
  a state of four 32-bit words in 64 steps, the state printed as 32 hexadecimal digits.
\<close>

type_synonym md5_state = "32 word \<times> 32 word \<times> 32 word \<times> 32 word"

definition md5_K :: "32 word list" where
  "md5_K =
     [
      0xd76aa478, 0xe8c7b756, 0x242070db, 0xc1bdceee, 0xf57c0faf, 0x4787c62a,
      0xa8304613, 0xfd469501, 0x698098d8, 0x8b44f7af, 0xffff5bb1, 0x895cd7be,
      0x6b901122, 0xfd987193, 0xa679438e, 0x49b40821, 0xf61e2562, 0xc040b340,
      0x265e5a51, 0xe9b6c7aa, 0xd62f105d, 0x02441453, 0xd8a1e681, 0xe7d3fbc8,
      0x21e1cde6, 0xc33707d6, 0xf4d50d87, 0x455a14ed, 0xa9e3e905, 0xfcefa3f8,
      0x676f02d9, 0x8d2a4c8a, 0xfffa3942, 0x8771f681, 0x6d9d6122, 0xfde5380c,
      0xa4beea44, 0x4bdecfa9, 0xf6bb4b60, 0xbebfbc70, 0x289b7ec6, 0xeaa127fa,
      0xd4ef3085, 0x04881d05, 0xd9d4d039, 0xe6db99e5, 0x1fa27cf8, 0xc4ac5665,
      0xf4292244, 0x432aff97, 0xab9423a7, 0xfc93a039, 0x655b59c3, 0x8f0ccc92,
      0xffeff47d, 0x85845dd1, 0x6fa87e4f, 0xfe2ce6e0, 0xa3014314, 0x4e0811a1,
      0xf7537e82, 0xbd3af235, 0x2ad7d2bb, 0xeb86d391]"

definition md5_S :: "nat list" where
  "md5_S =
     [
      7, 12, 17, 22, 7, 12, 17, 22, 7, 12, 17, 22, 7, 12, 17, 22,
      5, 9, 14, 20, 5, 9, 14, 20, 5, 9, 14, 20, 5, 9, 14, 20,
      4, 11, 16, 23, 4, 11, 16, 23, 4, 11, 16, 23, 4, 11, 16, 23,
      6, 10, 15, 21, 6, 10, 15, 21, 6, 10, 15, 21, 6, 10, 15, 21]"

definition md5_step :: "32 word list \<Rightarrow> md5_state \<Rightarrow> nat \<Rightarrow> md5_state" where
  "md5_step M st i =
     (case st of (A, B, C, D) \<Rightarrow>
        let F = (if i < 16 then (B AND C) OR (NOT B AND D)
                 else if i < 32 then (D AND B) OR (NOT D AND C)
                 else if i < 48 then B XOR C XOR D
                 else C XOR (B OR NOT D));
            g = (if i < 16 then i
                 else if i < 32 then (5 * i + 1) mod 16
                 else if i < 48 then (3 * i + 5) mod 16
                 else (7 * i) mod 16);
            F = F + A + md5_K ! i + M ! g
        in (D, B + word_rotl (md5_S ! i) F, B, C))"

text \<open>Four bytes, least significant first, as a word; and back.\<close>

fun le_word :: "8 word list \<Rightarrow> 32 word" where
  "le_word [] = 0"
| "le_word (b # bs) = ucast b OR push_bit 8 (le_word bs)"

definition le_bytes :: "32 word \<Rightarrow> 8 word list" where
  "le_bytes w = [ucast w, ucast (drop_bit 8 w), ucast (drop_bit 16 w), ucast (drop_bit 24 w)]"

definition md5_block :: "md5_state \<Rightarrow> 8 word list \<Rightarrow> md5_state" where
  "md5_block st block =
     (let M = map (\<lambda>j. le_word (take 4 (drop (4 * j) block))) [0..<16]
      in case (st, foldl (md5_step M) st [0..<64]) of
           ((a0, b0, c0, d0), (A, B, C, D)) \<Rightarrow> (a0 + A, b0 + B, c0 + C, d0 + D))"

definition md5_pad :: "8 word list \<Rightarrow> 8 word list" where
  "md5_pad msg =
     msg @ [0x80] @ replicate ((119 - length msg mod 64) mod 64) 0
       @ map (\<lambda>j. ucast (drop_bit (8 * j) (word_of_nat (8 * length msg) :: 64 word))) [0..<8]"

definition md5 :: "8 word list \<Rightarrow> md5_state" where
  "md5 msg =
     (let padded = md5_pad msg
      in foldl md5_block (0x67452301, 0xefcdab89, 0x98badcfe, 0x10325476)
           (map (\<lambda>k. take 64 (drop (64 * k) padded)) [0..<length padded div 64]))"

definition hex_digit :: "nat \<Rightarrow> char" where
  "hex_digit n = ''0123456789abcdef'' ! (n mod 16)"

definition hex_byte :: "8 word \<Rightarrow> string" where
  "hex_byte b = [hex_digit (unat b div 16), hex_digit (unat b)]"

text \<open>\<open>hashlib.md5(s.encode()).hexdigest()\<close> of a string of ASCII characters.\<close>

definition md5_hexdigest :: "string \<Rightarrow> string" where
  "md5_hexdigest s =
     (case md5 (map of_char s) of
        (A, B, C, D) \<Rightarrow> concat (map hex_byte (le_bytes A @ le_bytes B @ le_bytes C @ le_bytes D)))"

subsection \<open>json.dumps\<close>

text \<open>
  \<open>json.dumps\<close> with its defaults (\<open>ensure_ascii\<close>, separators \<open>", "\<close> and \<open>": "\<close>),
  on what the cache gives it: a list of pairs of strings, which it writes as an array of
  two-element arrays.
\<close>

definition json_escape :: "char \<Rightarrow> string" where
  "json_escape c =
     (if c = CHR 0x22 then [CHR 0x5C, CHR 0x22]
      else if c = CHR 0x5C then [CHR 0x5C, CHR 0x5C]
      else if c = CHR 0x0A then [CHR 0x5C, CHR ''n'']
      else if c = CHR 0x0D then [CHR 0x5C, CHR ''r'']
      else if c = CHR 0x09 then [CHR 0x5C, CHR ''t'']
      else if c = CHR 0x08 then [CHR 0x5C, CHR ''b'']
      else if c = CHR 0x0C then [CHR 0x5C, CHR ''f'']
      else if CHR 0x20 \<le> c \<and> c \<le> CHR 0x7E then [c]
      else [CHR 0x5C, CHR ''u'', CHR ''0'', CHR ''0'',
            hex_digit (of_char c div 16), hex_digit (of_char c)])"

definition json_string :: "string \<Rightarrow> string" where
  "json_string s = [CHR 0x22] @ concat (map json_escape s) @ [CHR 0x22]"

text \<open>\<open>sep.join(xs)\<close>\<close>

fun join :: "string \<Rightarrow> string list \<Rightarrow> string" where
  "join sep [] = []"
| "join sep [x] = x"
| "join sep (x # xs) = x @ sep @ join sep xs"

definition json_dumps :: "(string \<times> string) list \<Rightarrow> string" where
  "json_dumps params =
     ''['' @ join '', '' (map (\<lambda>p. ''['' @ json_string (fst p) @ '', '' @ json_string (snd p) @ '']'')
                             params) @ '']''"

subsection \<open>RedisCache\<close>

text \<open>
  The keyword arguments of \<open>_generate_cache_key\<close> are a dictionary: a list of pairs in
  insertion order, with distinct names. \<open>sorted(kwargs.items())\<close> sorts the pairs, names
  first, by code point.
\<close>

definition generate_cache_key :: "string \<Rightarrow> (string \<times> string) list \<Rightarrow> string" where
  "generate_cache_key prefix kwargs =
     (let sorted_params = sort kwargs;
          params_str = json_dumps sorted_params;
          params_hash = md5_hexdigest params_str
      in ''llm:'' @ prefix @ '':'' @ params_hash)"

text \<open>
  What a cache entry holds: the dictionary of an assessment or of a first-aid guidance,
  which \<open>json.dumps\<close> and \<open>json.loads\<close> carry to Redis and back.
\<close>

datatype cached = CachedAssessment assessment_data | CachedFirstAid first_aid_data

text \<open>
  The Redis server as the client sees it: whether it answers, and its entries, each with
  the time to live it was set with.
\<close>

record redis =
  up :: bool
  entries :: "string \<rightharpoonup> nat \<times> cached"

record RedisCache =
  enabled :: bool
  client :: "redis option"

record Settings =
  ENABLE_PII_ANONYMIZATION :: bool
  ENABLE_FALLBACK_RESPONSES :: bool
  CACHE_TTL :: nat

text \<open>\<open>RedisCache.get\<close>; an exception of the client is caught and gives \<open>None\<close>.\<close>

definition cache_get :: "RedisCache \<Rightarrow> string \<Rightarrow> cached option" where
  "cache_get self key =
     (case client self of
        None \<Rightarrow> None
      | Some r \<Rightarrow>
          if \<not> enabled self then None
          else if \<not> up r then None
          else map_option snd (entries r key))"

text \<open>
  \<open>RedisCache.set\<close> with \<open>ttl\<close> left out: the success flag and the cache afterwards.
\<close>

definition cache_set :: "Settings \<Rightarrow> RedisCache \<Rightarrow> string \<Rightarrow> cached \<Rightarrow> bool \<times> RedisCache" where
  "cache_set settings self key v =
     (case client self of
        None \<Rightarrow> (False, self)
      | Some r \<Rightarrow>
          if \<not> enabled self then (False, self)
          else if \<not> up r then (False, self)
          else (True, self\<lparr>client := Some (r\<lparr>entries := (entries r)(key \<mapsto> (CACHE_TTL settings, v))\<rparr>)\<rparr>))"

definition assessment_key :: "string \<Rightarrow> string \<Rightarrow> string" where
  "assessment_key type_name desc =
     generate_cache_key ''assessment'' [(''type'', type_name), (''desc'', take 100 desc)]"

definition first_aid_key :: "string \<Rightarrow> string \<Rightarrow> string" where
  "first_aid_key type_name desc =
     generate_cache_key ''first_aid'' [(''type'', type_name), (''desc'', take 100 desc)]"

definition get_assessment_cache :: "RedisCache \<Rightarrow> string \<Rightarrow> string \<Rightarrow> cached option" where
  "get_assessment_cache self type_name desc =
     cache_get self (assessment_key type_name desc)"

definition set_assessment_cache ::
  "Settings \<Rightarrow> RedisCache \<Rightarrow> string \<Rightarrow> string \<Rightarrow> assessment_data \<Rightarrow> bool \<times> RedisCache" where
  "set_assessment_cache settings self type_name desc response =
     cache_set settings self (assessment_key type_name desc) (CachedAssessment response)"

definition get_first_aid_cache :: "RedisCache \<Rightarrow> string \<Rightarrow> string \<Rightarrow> cached option" where
  "get_first_aid_cache self type_name desc =
     cache_get self (first_aid_key type_name desc)"

definition set_first_aid_cache ::
  "Settings \<Rightarrow> RedisCache \<Rightarrow> string \<Rightarrow> string \<Rightarrow> first_aid_data \<Rightarrow> bool \<times> RedisCache" where
  "set_first_aid_cache settings self type_name desc response =
     cache_set settings self (first_aid_key type_name desc) (CachedFirstAid response)"

section \<open>The prompts (app/prompts)\<close>

definition EMERGENCY_ASSESSMENT_SYSTEM_PROMPT :: string where
  "EMERGENCY_ASSESSMENT_SYSTEM_PROMPT =
     concat
       [''You are an AI emergency assessment assistant for the SOS App. Your role is to analyze emergency situations and provide severity assessments with appropriate recommendations.'' @ [newline],
        '''' @ [newline],
        ''**CRITICAL GUIDELINES:**'' @ [newline],
        ''1. You are NOT a substitute for professional medical advice or emergency services'' @ [newline],
        ''2. ALWAYS recommend calling 911/emergency services for life-threatening situations'' @ [newline],
        ''3. Provide clear, actionable recommendations'' @ [newline],
        ''4. Be concise but thorough'' @ [newline],
        ''5. Include appropriate disclaimers'' @ [newline],
        ''6. Consider the context: location, medical profile, emergency type'' @ [newline],
        ''7. Assess severity as: CRITICAL, HIGH, MEDIUM, or LOW'' @ [newline],
        '''' @ [newline],
        ''**RESPONSE FORMAT:**'' @ [newline],
        ''- Severity Level: [CRITICAL/HIGH/MEDIUM/LOW]'' @ [newline],
        ''- Assessment: [2-3 sentence assessment of the situation]'' @ [newline],
        ''- Immediate Actions: [List 3-5 specific recommendations]'' @ [newline],
        ''- Call Emergency Services: [YES/NO with justification]'' @ [newline],
        '''' @ [newline],
        ''**MEDICAL DISCLAIMER:**'' @ [newline],
        ''This assessment is AI-generated and should not replace professional medical advice. Always call emergency services (911) for life-threatening emergencies or when in doubt.'' @ [newline],
        '''']"

definition FIRST_AID_SYSTEM_PROMPT :: string where
  "FIRST_AID_SYSTEM_PROMPT =
     concat
       [''You are an AI first aid guidance assistant for the SOS App. Your role is to provide step-by-step first aid instructions for emergency situations.'' @ [newline],
        '''' @ [newline],
        ''**CRITICAL GUIDELINES:**'' @ [newline],
        ''1. You are NOT a substitute for professional medical care'' @ [newline],
        ''2. ALWAYS emphasize calling 911/emergency services first for serious injuries'' @ [newline],
        ''3. Provide clear, sequential, numbered steps'' @ [newline],
        ''4. Include safety warnings for each step when relevant'' @ [newline],
        ''5. Use simple, easy-to-understand language'' @ [newline],
        ''6. Focus on immediate stabilization until professional help arrives'' @ [newline],
        ''7. Never provide instructions that could cause harm'' @ [newline],
        ''8. Include '' @ [CHR 0x22] @ ''when to stop'' @ [CHR 0x22] @ '' criteria'' @ [newline],
        '''' @ [newline],
        ''**RESPONSE FORMAT:**'' @ [newline],
        ''Step 1: [Instruction]'' @ [newline],
        ''- Warning: [Any safety warnings]'' @ [newline],
        ''- Duration: [How long to perform this step]'' @ [newline],
        '''' @ [newline],
        ''Step 2: [Instruction]'' @ [newline],
        ''...'' @ [newline],
        '''' @ [newline],
        ''**CRITICAL WARNINGS:**'' @ [newline],
        ''[List any critical warnings specific to this emergency]'' @ [newline],
        '''' @ [newline],
        ''**WHEN TO STOP:**'' @ [newline],
        ''[Criteria for when to stop first aid and what to do next]'' @ [newline],
        '''' @ [newline],
        ''**MEDICAL DISCLAIMER:**'' @ [newline],
        ''This first aid guidance is AI-generated and for informational purposes only. Always prioritize calling emergency services and obtaining professional medical help for serious injuries or emergencies.'' @ [newline],
        '''']"

text \<open>An optional string that is set and not empty, with its label; else nothing.\<close>

definition labelled :: "string \<Rightarrow> string option \<Rightarrow> string list" where
  "labelled label v = (if truthy v then [label @ the v] else [])"

definition labelled_list :: "string \<Rightarrow> string list \<Rightarrow> string list" where
  "labelled_list label vs = (if vs \<noteq> [] then [label @ join '', '' vs] else [])"

definition create_assessment_prompt :: "context_value \<Rightarrow> string" where
  "create_assessment_prompt context =
     (let prompt_parts =
            [''**Emergency Type:** '' @ upper (type_value (emergency_type context)),
             ''**Description:** '' @ description context];
          prompt_parts = prompt_parts @
            (case location context of
               None \<Rightarrow> []
             | Some loc \<Rightarrow>
                 let location_parts = labelled ''City: '' (city loc) @ labelled ''Country: '' (country loc)
                 in if location_parts \<noteq> [] then [''**Location:** '' @ join '', '' location_parts]
                    else []);
          prompt_parts = prompt_parts @
            (case medical_profile context of
               None \<Rightarrow> []
             | Some mp \<Rightarrow>
                 let medical_parts =
                       labelled ''Age: '' (age_range mp) @ labelled ''Blood Type: '' (blood_type mp)
                       @ labelled_list ''Allergies: '' (allergies mp)
                       @ labelled_list ''Conditions: '' (medical_conditions mp)
                 in if medical_parts \<noteq> [] then [''**Medical Profile:** '' @ join ''; '' medical_parts]
                    else []);
          prompt_parts = prompt_parts @ labelled ''**Additional Information:** '' (additional_info context);
          prompt_parts = prompt_parts @
            [[newline] @ ''Provide your emergency assessment following the response format guidelines.'']
      in join [newline, newline] prompt_parts)"

definition create_first_aid_prompt :: "context_value \<Rightarrow> string option \<Rightarrow> string" where
  "create_first_aid_prompt context specific_concern =
     (let prompt_parts =
            [''**Emergency Type:** '' @ upper (type_value (emergency_type context)),
             ''**Situation:** '' @ description context];
          prompt_parts = prompt_parts @ labelled ''**Specific Concern:** '' specific_concern;
          prompt_parts = prompt_parts @
            (case medical_profile context of
               None \<Rightarrow> []
             | Some mp \<Rightarrow>
                 let considerations =
                       labelled ''Patient age range: '' (age_range mp)
                       @ labelled_list ''Known allergies: '' (allergies mp)
                       @ labelled_list ''Medical conditions: '' (medical_conditions mp)
                       @ labelled_list ''Current medications: '' (medications mp)
                 in if considerations \<noteq> []
                    then [''**Medical Considerations:** '' @ join ''; '' considerations]
                    else []);
          prompt_parts = prompt_parts @
            (case location context of
               None \<Rightarrow> []
             | Some loc \<Rightarrow> labelled ''**Location:** '' (city loc));
          prompt_parts = prompt_parts @ labelled ''**Additional Context:** '' (additional_info context);
          prompt_parts = prompt_parts @
            [[newline] @ ''Provide step-by-step first aid instructions following the response format guidelines. ''
               @ ''Focus on immediate actions that can be safely performed by a layperson until professional ''
               @ ''help arrives. Include all relevant safety warnings.'']
      in join [newline, newline] prompt_parts)"

section \<open>The routes (app/routes/llm_routes.py)\<close>

text \<open>
  The response models add the fixed disclaimer and the time of processing, given as the
  parameter \<open>now\<close>.
\<close>

record EmergencyAssessmentResponse = assessment_data +
  disclaimer :: string
  processed_at :: nat

record FirstAidResponse = first_aid_data +
  fa_disclaimer :: string
  fa_processed_at :: nat

definition assessment_disclaimer :: string where
  "assessment_disclaimer =
     ''This is an AI-generated assessment and should not replace professional medical ''
     @ ''advice. Always call emergency services (911) for life-threatening emergencies.''"

definition first_aid_disclaimer :: string where
  "first_aid_disclaimer =
     ''This first aid guidance is AI-generated and for informational purposes only. ''
     @ ''Always prioritize professional medical help for serious injuries or emergencies.''"

text \<open>\<open>EmergencyAssessmentResponse(**data)\<close> and \<open>FirstAidResponse(**data)\<close>\<close>

definition assessment_response :: "assessment_data \<Rightarrow> nat \<Rightarrow> EmergencyAssessmentResponse" where
  "assessment_response d now =
     \<lparr>severity_level = severity_level d, assessment = assessment d,
      recommendations = recommendations d, call_emergency_services = call_emergency_services d,
      success = success d, response_emergency_id = response_emergency_id d,
      disclaimer = assessment_disclaimer, processed_at = now\<rparr>"

definition first_aid_response :: "first_aid_data \<Rightarrow> nat \<Rightarrow> FirstAidResponse" where
  "first_aid_response d now =
     \<lparr>fa_success = fa_success d, fa_emergency_id = fa_emergency_id d,
      fa_emergency_type = fa_emergency_type d, fa_steps = fa_steps d,
      critical_warnings = critical_warnings d, when_to_stop = when_to_stop d,
      fa_disclaimer = first_aid_disclaimer, fa_processed_at = now\<rparr>"

record EmergencyAssessmentRequest =
  emergency_context :: ref
  include_recommendations :: bool

record FirstAidRequest =
  fa_emergency_context :: ref
  specific_concern :: "string option"

text \<open>
  How a request ends: with the cached response, with the response made from the model's
  text, with the fallback response, or with an HTTP error (status and detail).
\<close>

datatype 'a outcome = FromCache 'a | FromLLM 'a | FromFallback 'a | HTTPException nat string

text \<open>
  The \<open>except\<close> branch of \<open>assess_emergency\<close>; \<open>original\<close> is the request's context,
  \<open>anonymized_context\<close> the one the pipeline works on.
\<close>

definition assessment_fallback ::
  "Settings \<Rightarrow> context_value \<Rightarrow> context_value \<Rightarrow> nat \<Rightarrow> EmergencyAssessmentResponse outcome" where
  "assessment_fallback settings original anonymized_context now =
     (if ENABLE_FALLBACK_RESPONSES settings
      then (let fallback_data = get_fallback_assessment (emergency_type anonymized_context)
            in FromFallback
                 \<lparr>severity_level = severity_level fallback_data,
                  assessment = assessment fallback_data,
                  recommendations = recommendations fallback_data,
                  call_emergency_services = call_emergency_services fallback_data,
                  success = True, response_emergency_id = emergency_id original,
                  disclaimer = assessment_disclaimer, processed_at = now\<rparr>)
      else HTTPException 503 ''LLM service unavailable and fallback is disabled'')"

text \<open>
  \<open>assess_emergency\<close>, on the store of context objects and the cache, which it returns
  as they are after the request. A cached entry that is not an assessment fails the
  response model and ends in the outer handler's error 500.
\<close>

definition assess_emergency ::
  "Settings \<Rightarrow> LLMOrchestrator \<Rightarrow> nat \<Rightarrow> store \<times> RedisCache \<Rightarrow> EmergencyAssessmentRequest
     \<Rightarrow> (store \<times> RedisCache) \<times> EmergencyAssessmentResponse outcome" where
  "assess_emergency settings orchestrator now state request =
     (let s = fst state; cache = snd state;
          original = context_at s (emergency_context request);
          anonymized_s =
            (if ENABLE_PII_ANONYMIZATION settings
             then anonymize_emergency_context s (emergency_context request)
             else (emergency_context request, s));
          s = snd anonymized_s;
          anonymized_context = context_at s (fst anonymized_s);
          cached_response =
            get_assessment_cache cache (type_value (emergency_type anonymized_context))
              (description anonymized_context)
      in case cached_response of
           Some (CachedAssessment d) \<Rightarrow> ((s, cache), FromCache (assessment_response d now))
         | Some (CachedFirstAid d) \<Rightarrow>
             ((s, cache), HTTPException 500 ''Failed to assess emergency'')
         | None \<Rightarrow>
             (let user_prompt = create_assessment_prompt anonymized_context
              in case snd (generate_response orchestrator EMERGENCY_ASSESSMENT_SYSTEM_PROMPT
                             user_prompt False) of
                   Inl e \<Rightarrow> ((s, cache), assessment_fallback settings original anonymized_context now)
                 | Inr llm_response \<Rightarrow>
                     if \<not> is_valid (validate_llm_response llm_response ''assessment'' True)
                     then ((s, cache), assessment_fallback settings original anonymized_context now)
                     else
                       (let llm_response = sanitize_response llm_response;
                            assessment_data = parse_assessment_response llm_response anonymized_context;
                            stored = set_assessment_cache settings cache
                                       (type_value (emergency_type anonymized_context))
                                       (description anonymized_context) assessment_data
                        in ((s, snd stored), FromLLM (assessment_response assessment_data now)))))"

definition first_aid_fallback ::
  "Settings \<Rightarrow> context_value \<Rightarrow> context_value \<Rightarrow> nat \<Rightarrow> FirstAidResponse outcome" where
  "first_aid_fallback settings original anonymized_context now =
     (if ENABLE_FALLBACK_RESPONSES settings
      then (let fallback_steps = get_fallback_first_aid (emergency_type anonymized_context);
                fallback_warnings = get_critical_warnings (emergency_type anonymized_context)
            in FromFallback
                 \<lparr>fa_success = True, fa_emergency_id = emergency_id original,
                  fa_emergency_type = emergency_type anonymized_context,
                  fa_steps = fallback_steps, critical_warnings = fallback_warnings,
                  when_to_stop = ''Stop and seek immediate professional help if the person's condition worsens or you feel unsafe continuing.'',
                  fa_disclaimer = first_aid_disclaimer, fa_processed_at = now\<rparr>)
      else HTTPException 503 ''LLM service unavailable and fallback is disabled'')"

definition get_first_aid_guidance ::
  "Settings \<Rightarrow> LLMOrchestrator \<Rightarrow> nat \<Rightarrow> store \<times> RedisCache \<Rightarrow> FirstAidRequest
     \<Rightarrow> (store \<times> RedisCache) \<times> FirstAidResponse outcome" where
  "get_first_aid_guidance settings orchestrator now state request =
     (let s = fst state; cache = snd state;
          original = context_at s (fa_emergency_context request);
          anonymized_s =
            (if ENABLE_PII_ANONYMIZATION settings
             then anonymize_emergency_context s (fa_emergency_context request)
             else (fa_emergency_context request, s));
          s = snd anonymized_s;
          anonymized_context = context_at s (fst anonymized_s);
          cached_response =
            get_first_aid_cache cache (type_value (emergency_type anonymized_context))
              (description anonymized_context)
      in case cached_response of
           Some (CachedFirstAid d) \<Rightarrow> ((s, cache), FromCache (first_aid_response d now))
         | Some (CachedAssessment d) \<Rightarrow>
             ((s, cache), HTTPException 500 ''Failed to get first aid guidance'')
         | None \<Rightarrow>
             (let user_prompt = create_first_aid_prompt anonymized_context (specific_concern request)
              in case snd (generate_response orchestrator FIRST_AID_SYSTEM_PROMPT user_prompt False) of
                   Inl e \<Rightarrow> ((s, cache), first_aid_fallback settings original anonymized_context now)
                 | Inr llm_response \<Rightarrow>
                     if \<not> is_valid (validate_llm_response llm_response ''first_aid'' True)
                     then ((s, cache), first_aid_fallback settings original anonymized_context now)
                     else
                       (let llm_response = sanitize_response llm_response;
                            first_aid_data = parse_first_aid_response llm_response anonymized_context;
                            stored = set_first_aid_cache settings cache
                                       (type_value (emergency_type anonymized_context))
                                       (description anonymized_context) first_aid_data
                        in ((s, snd stored), FromLLM (first_aid_response first_aid_data now)))))"

text \<open>Settings, a cache and providers to run the routes on.\<close>

definition example_settings :: Settings where
  "example_settings =
     \<lparr>ENABLE_PII_ANONYMIZATION = True, ENABLE_FALLBACK_RESPONSES = True, CACHE_TTL = 3600\<rparr>"

definition empty_cache :: RedisCache where
  "empty_cache = \<lparr>enabled = True, client = Some \<lparr>up = True, entries = Map.empty\<rparr>\<rparr>"

definition failing_providers :: LLMOrchestrator where
  "failing_providers = \<lparr>primary_llm = Some (\<lambda>m. None), fallback_llm = Some (\<lambda>m. None)\<rparr>"

section \<open>What a pattern without boundaries and repetition matches\<close>







section \<open>Properties of the fallback service\<close>

lemma FALLBACK_ASSESSMENTS_cases:
  "FALLBACK_ASSESSMENTS OTHER = None"
  "FALLBACK_ASSESSMENTS MEDICAL \<noteq> None"
  "FALLBACK_ASSESSMENTS ACCIDENT \<noteq> None"
  "FALLBACK_ASSESSMENTS FIRE \<noteq> None"
  "FALLBACK_ASSESSMENTS VIOLENCE \<noteq> None"
  "FALLBACK_ASSESSMENTS NATURAL_DISASTER \<noteq> None"
  by (simp_all add: FALLBACK_ASSESSMENTS_def)

text \<open>
  Claim C6. \<open>get_fallback_assessment\<close> is a total function of the category alone: every
  category, \<open>OTHER\<close> included, gets the row of the table when it has one and the generic
  assessment otherwise, which always asks to call the emergency services and carries at
  least three recommendations. Only \<open>OTHER\<close> has no row. For \<open>MEDICAL\<close> the assessment
  has severity high, \<open>call_emergency_services\<close> true and exactly 5 recommendations.
\<close>

theorem get_fallback_assessment_total:
  "(\<forall>c. get_fallback_assessment c =
          (case FALLBACK_ASSESSMENTS c of Some row \<Rightarrow> row | None \<Rightarrow> get_fallback_assessment OTHER))
   \<and> (\<forall>c. (FALLBACK_ASSESSMENTS c = None) = (c = OTHER))
   \<and> (\<forall>c. call_emergency_services (get_fallback_assessment c)
            \<and> 3 \<le> length (recommendations (get_fallback_assessment c)))
   \<and> length (recommendations (get_fallback_assessment OTHER)) = 3
   \<and> severity_level (get_fallback_assessment MEDICAL) = HIGH
   \<and> call_emergency_services (get_fallback_assessment MEDICAL)
   \<and> length (recommendations (get_fallback_assessment MEDICAL)) = 5"
proof -
  have rows: "\<forall>c. (FALLBACK_ASSESSMENTS c = None) = (c = OTHER)"
  proof
    fix c show "(FALLBACK_ASSESSMENTS c = None) = (c = OTHER)"
      using FALLBACK_ASSESSMENTS_cases by (cases c) simp_all
  qed
  have generic: "\<forall>c. get_fallback_assessment c =
          (case FALLBACK_ASSESSMENTS c of Some row \<Rightarrow> row | None \<Rightarrow> get_fallback_assessment OTHER)"
    using rows by (auto simp: get_fallback_assessment_def split: option.splits)
  have each: "\<forall>c. call_emergency_services (get_fallback_assessment c)
            \<and> 3 \<le> length (recommendations (get_fallback_assessment c))"
  proof
    fix c
    show "call_emergency_services (get_fallback_assessment c)
            \<and> 3 \<le> length (recommendations (get_fallback_assessment c))"
      by (cases c) (simp_all add: get_fallback_assessment_def FALLBACK_ASSESSMENTS_def)
  qed
  have other: "length (recommendations (get_fallback_assessment OTHER)) = 3"
    by (simp add: get_fallback_assessment_def FALLBACK_ASSESSMENTS_def)
  have medical: "severity_level (get_fallback_assessment MEDICAL) = HIGH
     \<and> call_emergency_services (get_fallback_assessment MEDICAL)
     \<and> length (recommendations (get_fallback_assessment MEDICAL)) = 5"
    by (simp add: get_fallback_assessment_def FALLBACK_ASSESSMENTS_def)
  from generic rows each other medical show ?thesis by blast
qed

section \<open>Properties of the validator\<close>

lemma harmful_step_inv:
  "is_valid r = (errors r = []) \<Longrightarrow> is_valid (harmful_step t r pat) = (errors (harmful_step t r pat) = [])"
  by (simp add: harmful_step_def)

lemma harmful_fold_inv:
  "is_valid r = (errors r = []) \<Longrightarrow>
   is_valid (foldl (harmful_step t) r pats) = (errors (foldl (harmful_step t) r pats) = [])"
  by (induction pats arbitrary: r) (simp_all add: harmful_step_inv)

lemma disclaimer_step_frame [simp]:
  "is_valid (disclaimer_step t rd r) = is_valid r"
  "errors (disclaimer_step t rd r) = errors r"
  by (simp_all add: disclaimer_step_def)

lemma length_step_frame [simp]:
  "is_valid (length_step t r) = is_valid r"
  "errors (length_step t r) = errors r"
  by (simp_all add: length_step_def)

lemma misinformation_step_frame [simp]:
  "is_valid (misinformation_step t r pat) = is_valid r"
  "errors (misinformation_step t r pat) = errors r"
  by (simp_all add: misinformation_step_def)

lemma misinformation_fold_frame [simp]:
  "is_valid (foldl (misinformation_step t) r pats) = is_valid r"
  "errors (foldl (misinformation_step t) r pats) = errors r"
  by (induction pats arbitrary: r) simp_all

lemma call_to_action_step_frame [simp]:
  "is_valid (call_to_action_step t ty r) = is_valid r"
  "errors (call_to_action_step t ty r) = errors r"
  by (simp_all add: call_to_action_step_def)

text \<open>
  Claim C7. For every response text, response type and \<open>require_disclaimer\<close> flag, the
  outcome of \<open>validate_llm_response\<close> is invalid exactly when its error list is not
  empty; and each of the checks that append warnings (disclaimer, length, definitive
  language, call to action) leaves \<open>is_valid\<close> and the error list as they were.
\<close>

theorem validate_invalid_iff_errors:
  "(\<not> is_valid (validate_llm_response t ty rd)) = (errors (validate_llm_response t ty rd) \<noteq> [])
   \<and> is_valid (disclaimer_step t rd r) = is_valid r
   \<and> is_valid (length_step t r) = is_valid r
   \<and> is_valid (foldl (misinformation_step t) r misinformation_patterns) = is_valid r
   \<and> is_valid (call_to_action_step t ty r) = is_valid r"
proof -
  have "is_valid (validate_llm_response t ty rd) = (errors (validate_llm_response t ty rd) = [])"
    unfolding validate_llm_response_def Let_def
    by (simp add: harmful_fold_inv)
  then show ?thesis by simp
qed

section \<open>Properties of the orchestrator\<close>

text \<open>
  Claim C8. For every pair of prompts: when the first provider to be tried (the primary
  one unless it is not configured or \<open>use_fallback\<close> is set, else the fallback one)
  returns a text, \<open>generate_response\<close> returns that text and has invoked no other
  provider; it raises exactly when every provider it is to try fails, which includes that
  there is none; and with \<open>use_fallback\<close> set the primary provider is never invoked.
\<close>

theorem generate_response_first_success:
  "(\<forall>llm content. \<not> use_fallback \<and> primary_llm self = Some llm \<and> llm (system_prompt, user_prompt) = Some content
      \<longrightarrow> generate_response self system_prompt user_prompt use_fallback = ([Primary], Inr content))
   \<and> (\<forall>llm content. (use_fallback \<or> primary_llm self = None) \<and> fallback_llm self = Some llm
         \<and> llm (system_prompt, user_prompt) = Some content
      \<longrightarrow> generate_response self system_prompt user_prompt use_fallback = ([Fallback], Inr content))
   \<and> (isl (snd (generate_response self system_prompt user_prompt use_fallback)) =
        ((use_fallback \<or> (case primary_llm self of None \<Rightarrow> True | Some llm \<Rightarrow> llm (system_prompt, user_prompt) = None))
         \<and> (case fallback_llm self of None \<Rightarrow> True | Some llm \<Rightarrow> llm (system_prompt, user_prompt) = None)))
   \<and> (use_fallback \<longrightarrow> Primary \<notin> set (fst (generate_response self system_prompt user_prompt use_fallback)))"
  by (auto simp: generate_response_def Let_def split: option.splits)

theorem generate_response_first_success_witness:
  "generate_response \<lparr>primary_llm = Some (\<lambda>m. Some (fst m @ snd m)), fallback_llm = Some (\<lambda>m. None)\<rparr>
     ''sys'' ''user'' False = ([Primary], Inr ''sysuser'')
   \<and> generate_response \<lparr>primary_llm = Some (\<lambda>m. None), fallback_llm = Some (\<lambda>m. Some (snd m))\<rparr>
     ''sys'' ''user'' True = ([Fallback], Inr ''user'')
   \<and> isl (snd (generate_response \<lparr>primary_llm = Some (\<lambda>m. Some (snd m)), fallback_llm = None\<rparr>
     ''sys'' ''user'' True))
   \<and> Primary \<notin> set (fst (generate_response
        \<lparr>primary_llm = Some (\<lambda>m. Some (snd m)), fallback_llm = None\<rparr> ''sys'' ''user'' True))"
  using
    generate_response_first_success
      [of False "\<lparr>primary_llm = Some (\<lambda>m. Some (fst m @ snd m)), fallback_llm = Some (\<lambda>m. None)\<rparr>"
          "''sys''" "''user''"]
    generate_response_first_success
      [of True "\<lparr>primary_llm = Some (\<lambda>m. None), fallback_llm = Some (\<lambda>m. Some (snd m))\<rparr>"
          "''sys''" "''user''"]
    generate_response_first_success
      [of True "\<lparr>primary_llm = Some (\<lambda>m. Some (snd m)), fallback_llm = None\<rparr>"
          "''sys''" "''user''"]
  by simp

section \<open>The disclaimer rule\<close>

lemma harmful_fold_warnings:
  "warnings (foldl (harmful_step t) r pats) = warnings r"
  by (induction pats arbitrary: r) (simp_all add: harmful_step_def)

lemma harmful_fold_severity:
  "severity r \<in> {''info'', ''error''} \<Longrightarrow>
   severity (foldl (harmful_step t) r pats) \<in> {''info'', ''error''}"
  by (induction pats arbitrary: r) (simp_all add: harmful_step_def)

lemma length_step_disclaimer:
  "(disclaimer_warning \<in> set (warnings (length_step t r))) = (disclaimer_warning \<in> set (warnings r))"
  "severity (length_step t r) = severity r"
  by (simp_all add: length_step_def disclaimer_warning_def)

lemma misinformation_step_disclaimer:
  "(disclaimer_warning \<in> set (warnings (misinformation_step t r pat)))
     = (disclaimer_warning \<in> set (warnings r))"
  "severity (misinformation_step t r pat) = severity r"
  by (simp_all add: misinformation_step_def disclaimer_warning_def)

lemma misinformation_fold_disclaimer:
  "(disclaimer_warning \<in> set (warnings (foldl (misinformation_step t) r pats)))
     = (disclaimer_warning \<in> set (warnings r))"
  "severity (foldl (misinformation_step t) r pats) = severity r"
  by (induction pats arbitrary: r) (simp_all add: misinformation_step_disclaimer)

lemma call_to_action_step_disclaimer:
  "(disclaimer_warning \<in> set (warnings (call_to_action_step t ty r)))
     = (disclaimer_warning \<in> set (warnings r))"
  "severity (call_to_action_step t ty r) = severity r"
  by (simp_all add: call_to_action_step_def disclaimer_warning_def call_to_action_warning_def)

text \<open>What the validator does about the disclaimer, on a text that is not blank.\<close>

lemma validate_disclaimer_warning:
  assumes "strip t \<noteq> []"
  shows "(disclaimer_warning \<in> set (warnings (validate_llm_response t ty rd)))
           = (rd \<and> \<not> has_disclaimer t)"
    and "rd \<and> \<not> has_disclaimer t \<Longrightarrow>
           severity (validate_llm_response t ty rd) \<in> {''warning'', ''error''}"
proof -
  from assms have ne: "t \<noteq> []" by (auto simp: strip_def)
  let ?h = "foldl (harmful_step t) \<lparr>is_valid = True, errors = [], warnings = [], severity = ''info''\<rparr>
              HARMFUL_PATTERNS"
  have v: "validate_llm_response t ty rd =
        call_to_action_step t ty
          (foldl (misinformation_step t) (length_step t (disclaimer_step t rd ?h))
             misinformation_patterns)"
    using assms ne by (simp add: validate_llm_response_def Let_def)
  have w: "warnings ?h = []" by (simp add: harmful_fold_warnings)
  show "(disclaimer_warning \<in> set (warnings (validate_llm_response t ty rd)))
           = (rd \<and> \<not> has_disclaimer t)"
    unfolding v
    by (simp add: call_to_action_step_disclaimer misinformation_fold_disclaimer
        length_step_disclaimer disclaimer_step_def w)
  show "rd \<and> \<not> has_disclaimer t \<Longrightarrow>
           severity (validate_llm_response t ty rd) \<in> {''warning'', ''error''}"
    unfolding v
    by (simp add: call_to_action_step_disclaimer misinformation_fold_disclaimer
        length_step_disclaimer disclaimer_step_def)
qed

lemma validate_blank:
  assumes "strip t = []"
  shows "validate_llm_response t ty rd =
           \<lparr>is_valid = False, errors = [''Response is empty''], warnings = [], severity = ''error''\<rparr>"
  using assms by (simp add: validate_llm_response_def Let_def)

lemma has_disclaimer_keywords:
  "has_disclaimer t = (has_keyword t ''not a substitute'' \<or> has_keyword t ''professional medical'')"
  by (simp add: has_disclaimer_def REQUIRED_DISCLAIMER_KEYWORDS_def)

lemma validity_ignores_disclaimer:
  "is_valid (validate_llm_response t ty True) = is_valid (validate_llm_response t ty False)"
  by (simp add: validate_llm_response_def Let_def)

text \<open>
  Claim C1. With \<open>require_disclaimer\<close> set, the validator is to append the disclaimer
  warning exactly when the text has fewer than two of the four keywords; the source's own
  comment on the test reads \<open>At least 2 keywords\<close>. The code tests \<open>any\<close> over the first
  two keywords instead (lemma \<open>validate_disclaimer_warning\<close>), and so differs from the
  claim: the text \<open>This is not a substitute for care\<close> has one of the four keywords and
  gets no disclaimer warning, and the text \<open>Call emergency services at 911 now\<close> has two
  of them and gets the warning.
\<close>

theorem disclaimer_rule_failing_inputs:
  "keyword_count ''This is not a substitute for care'' = 1
   \<and> disclaimer_warning \<notin> set (warnings
         (validate_llm_response ''This is not a substitute for care'' ''assessment'' True))
   \<and> keyword_count ''Call emergency services at 911 now'' = 2
   \<and> disclaimer_warning \<in> set (warnings
         (validate_llm_response ''Call emergency services at 911 now'' ''assessment'' True))"
proof -
  have a: "keyword_count ''This is not a substitute for care'' = 1"
    by code_simp
  have b: "disclaimer_warning \<notin> set (warnings
         (validate_llm_response ''This is not a substitute for care'' ''assessment'' True))"
    by code_simp
  have c: "keyword_count ''Call emergency services at 911 now'' = 2"
    by code_simp
  have d: "disclaimer_warning \<in> set (warnings
         (validate_llm_response ''Call emergency services at 911 now'' ''assessment'' True))"
    by code_simp
  show ?thesis by (rule conjI a b c d)+
qed

section \<open>The two address patterns\<close>

text \<open>
  Claim C10. On the text \<open>123 Maple Drive\<close>, \<open>detect_pii\<close> reports no PII, every counter
  zero, while \<open>anonymize_text\<close> rewrites the text to \<open>[ADDRESS]\<close>: the suffixes
  Boulevard, Blvd, Lane, Ln, Drive and Dr are in the address pattern of
  \<open>anonymize_text\<close> and not in that of \<open>detect_pii\<close>.
\<close>

theorem detect_pii_misses_address:
  "detect_pii ''123 Maple Drive'' =
     \<lparr>has_pii = False, phone_numbers = 0, emails = 0, ssn = 0, credit_cards = 0, urls = 0,
      addresses = 0\<rparr>
   \<and> anonymize_text ''123 Maple Drive'' = ''[ADDRESS]''
   \<and> set anonymize_suffixes - set detect_suffixes =
       set [''Boulevard'', ''Blvd'', ''Lane'', ''Ln'', ''Drive'', ''Dr'']"
proof -
  have a: "detect_pii ''123 Maple Drive'' =
     \<lparr>has_pii = False, phone_numbers = 0, emails = 0, ssn = 0, credit_cards = 0, urls = 0,
      addresses = 0\<rparr>"
    by code_simp
  have b: "anonymize_text ''123 Maple Drive'' = ''[ADDRESS]''"
    by code_simp
  have c: "set anonymize_suffixes - set detect_suffixes =
       set [''Boulevard'', ''Blvd'', ''Lane'', ''Ln'', ''Drive'', ''Dr'']"
    by (simp add: anonymize_suffixes_def detect_suffixes_def)
  show ?thesis by (rule conjI a b c)+
qed

section \<open>Critical warnings in the first-aid parser\<close>

lemma starts_with_append: "starts_with x (x @ r)"
  by (induction x) simp_all

lemma starts_with_split: "starts_with x s \<Longrightarrow> \<exists>r. s = x @ r"
  by (induction x s rule: starts_with.induct) simp_all

lemma contains_middle: "contains x (a @ x @ b)"
proof (induction a)
  case Nil
  show ?case
  proof (cases "x @ b")
    case Nil
    then show ?thesis by simp
  next
    case (Cons c cs)
    have "starts_with x (x @ b)" by (rule starts_with_append)
    then show ?thesis by (simp add: Cons)
  qed
next
  case (Cons c a)
  then show ?case by simp
qed

lemma contains_split: "contains x s \<Longrightarrow> \<exists>a b. s = a @ x @ b"
proof (induction s)
  case Nil
  then show ?case by simp
next
  case (Cons c cs)
  from Cons.prems have "starts_with x (c # cs) \<or> contains x cs" by simp
  then show ?case
  proof
    assume "starts_with x (c # cs)"
    then obtain r where "c # cs = x @ r" using starts_with_split by blast
    then have "c # cs = [] @ x @ r" by simp
    then show ?thesis by blast
  next
    assume "contains x cs"
    then obtain a b where "cs = a @ x @ b" using Cons.IH by blast
    then have "c # cs = (c # a) @ x @ b" by simp
    then show ?thesis by blast
  qed
qed

lemma critical_warning_is_warning:
  assumes "contains ''critical warning'' s"
  shows "contains ''warning'' s"
proof -
  from assms obtain a b where "s = a @ ''critical warning'' @ b"
    using contains_split by blast
  then have "s = (a @ ''critical '') @ ''warning'' @ b" by simp
  then show ?thesis by (simp only: contains_middle)
qed

text \<open>
  Once a step is open, no line is ever collected into the top-level warnings: a line
  with \<open>critical warning\<close> has \<open>warning\<close> in it, and the branch for the warnings of a step
  comes before the branch for the critical warnings.
\<close>

lemma open_step_shadows:
  assumes "current_step st \<noteq> None"
  shows "top_warnings (parse_line st line) = top_warnings st"
    and "current_step (parse_line st line) \<noteq> None"
  using assms critical_warning_is_warning [of "lower line"]
  by (auto simp: parse_line_def is_critical_warning_def Let_def)

lemma open_step_fold:
  "current_step st \<noteq> None \<Longrightarrow> top_warnings (foldl parse_line st ls) = top_warnings st"
proof (induction ls arbitrary: st)
  case Nil
  show ?case by simp
next
  case (Cons l ls)
  from Cons.prems have a: "current_step (parse_line st l) \<noteq> None"
    by (rule open_step_shadows(2))
  from Cons.prems have b: "top_warnings (parse_line st l) = top_warnings st"
    by (rule open_step_shadows(1))
  from Cons.IH [OF a] b show ?case by simp
qed


section \<open>The anonymized copy and the original\<close>

lemma update_context_sel [simp]:
  "contexts (update_context i f s) = (contexts s)[i := f (contexts s ! i)]"
  "locations (update_context i f s) = locations s"
  "profiles (update_context i f s) = profiles s"
  by (simp_all add: update_context_def)

lemma update_location_sel [simp]:
  "contexts (update_location i f s) = contexts s"
  "locations (update_location i f s) = (locations s)[i := f (locations s ! i)]"
  "profiles (update_location i f s) = profiles s"
  by (simp_all add: update_location_def)

lemma model_copy_deep_sel:
  "fst (model_copy_deep s a) = length (contexts s)"
  "contexts (snd (model_copy_deep s a)) =
     contexts s @ [(contexts s ! a)\<lparr>
        location := map_option (\<lambda>l. length (locations s)) (location (contexts s ! a)),
        medical_profile := map_option (\<lambda>m. length (profiles s)) (medical_profile (contexts s ! a))\<rparr>]"
  "locations (snd (model_copy_deep s a)) =
     locations s @ (case location (contexts s ! a) of None \<Rightarrow> [] | Some l \<Rightarrow> [locations s ! l])"
  "profiles (snd (model_copy_deep s a)) =
     profiles s @ (case medical_profile (contexts s ! a) of None \<Rightarrow> [] | Some m \<Rightarrow> [profiles s ! m])"
  by (simp_all add: model_copy_deep_def Let_def split: option.splits)

lemma anonymize_fst: "fst (anonymize_emergency_context s a) = length (contexts s)"
  by (simp add: anonymize_emergency_context_def case_prod_beta Let_def model_copy_deep_sel)

lemma anonymize_contexts:
  "take (length (contexts s)) (contexts (snd (anonymize_emergency_context s a))) = contexts s"
  by (simp add: anonymize_emergency_context_def case_prod_beta Let_def model_copy_deep_sel
      split: option.splits)

lemma anonymize_profiles:
  "profiles (snd (anonymize_emergency_context s a)) = profiles (snd (model_copy_deep s a))"
  by (simp add: anonymize_emergency_context_def case_prod_beta Let_def
      split: option.splits)

lemma anonymize_locations:
  "take (length (locations s)) (locations (snd (anonymize_emergency_context s a))) = locations s"
  by (simp add: anonymize_emergency_context_def case_prod_beta Let_def model_copy_deep_sel
      nth_append split: option.splits)

lemma anonymize_new_context:
  assumes "a < length (contexts s)"
  shows "contexts (snd (anonymize_emergency_context s a)) ! length (contexts s) =
     (contexts s ! a)\<lparr>
        location := map_option (\<lambda>l. length (locations s)) (location (contexts s ! a)),
        medical_profile := map_option (\<lambda>m. length (profiles s)) (medical_profile (contexts s ! a)),
        description := anonymize_text (description (contexts s ! a)),
        additional_info :=
          (if truthy (additional_info (contexts s ! a))
           then map_option anonymize_text (additional_info (contexts s ! a))
           else additional_info (contexts s ! a))\<rparr>"
  using assms
  by (simp add: anonymize_emergency_context_def case_prod_beta Let_def model_copy_deep_sel
      nth_append split: option.splits)

lemma anonymize_new_location:
  assumes "a < length (contexts s)" and "location (contexts s ! a) = Some l"
    and "l < length (locations s)"
  shows "locations (snd (anonymize_emergency_context s a)) ! length (locations s) =
     (locations s ! l)\<lparr>
        address := (if truthy (address (locations s ! l)) then Some ''[ADDRESS]''
                    else address (locations s ! l)),
        latitude := None, longitude := None\<rparr>"
  using assms
  by (simp add: anonymize_emergency_context_def case_prod_beta Let_def model_copy_deep_sel
      nth_append)

lemma anonymize_lengths:
  "length (contexts (snd (anonymize_emergency_context s a))) = Suc (length (contexts s))"
  "length (locations (snd (anonymize_emergency_context s a))) =
     length (locations s) + (case location (contexts s ! a) of None \<Rightarrow> 0 | Some l \<Rightarrow> 1)"
  "length (profiles (snd (anonymize_emergency_context s a))) =
     length (profiles s) + (case medical_profile (contexts s ! a) of None \<Rightarrow> 0 | Some l \<Rightarrow> 1)"
  by (simp_all add: anonymize_emergency_context_def case_prod_beta Let_def model_copy_deep_sel
      split: option.splits)

lemma anonymize_new_profile:
  assumes "medical_profile (contexts s ! a) = Some m"
  shows "profiles (snd (anonymize_emergency_context s a)) ! length (profiles s) = profiles s ! m"
  using assms by (simp add: anonymize_profiles model_copy_deep_sel)

lemma old_nth: "take n ys = xs \<Longrightarrow> i < length xs \<Longrightarrow> ys ! i = xs ! i"
  by (metis nth_take length_take min_less_iff_conj)

lemma context_at_original:
  assumes "valid_context s a"
  shows "context_at (snd (anonymize_emergency_context s a)) a = context_at s a"
proof -
  let ?s' = "snd (anonymize_emergency_context s a)"
  from assms have a: "a < length (contexts s)" by (simp add: valid_context_def)
  have c: "contexts ?s' ! a = contexts s ! a"
    using old_nth [OF anonymize_contexts a] .
  have l: "map_option (\<lambda>l. locations ?s' ! l) (location (contexts s ! a))
         = map_option (\<lambda>l. locations s ! l) (location (contexts s ! a))"
    using assms old_nth [OF anonymize_locations]
    by (cases "location (contexts s ! a)") (simp_all add: valid_context_def)
  have p: "map_option (\<lambda>m. profiles ?s' ! m) (medical_profile (contexts s ! a))
         = map_option (\<lambda>m. profiles s ! m) (medical_profile (contexts s ! a))"
    using assms
    by (cases "medical_profile (contexts s ! a)")
       (simp_all add: valid_context_def anonymize_profiles model_copy_deep_sel nth_append)
  show ?thesis
    by (simp add: context_at_def Let_def c l p)
qed

lemma context_at_copy:
  assumes "valid_context s a"
  shows "context_at (snd (anonymize_emergency_context s a)) (length (contexts s))
           = anonymized_value (context_at s a)"
proof -
  from assms have a: "a < length (contexts s)" by (simp add: valid_context_def)
  show ?thesis
  proof (cases "location (contexts s ! a)")
    case None
    then show ?thesis
      using a
      by (cases "medical_profile (contexts s ! a)")
         (simp_all add: context_at_def Let_def anonymize_new_context anonymized_value_def
            anonymize_new_profile)
  next
    case (Some l)
    with assms have l: "l < length (locations s)" by (simp add: valid_context_def)
    show ?thesis
      using a Some l anonymize_new_location [OF a Some l]
      by (cases "medical_profile (contexts s ! a)")
         (simp_all add: context_at_def Let_def anonymize_new_context anonymized_value_def
            anonymize_new_profile)
  qed
qed

lemma valid_copy:
  assumes "valid_context s a"
  shows "valid_context (snd (anonymize_emergency_context s a)) (length (contexts s))"
  using assms
  by (simp add: valid_context_def anonymize_new_context anonymize_lengths split: option.splits)

text \<open>
  Claim C5. For every context of the store whose references are valid,
  \<open>anonymize_emergency_context\<close> returns a reference that is new, so distinct from the
  original's; every object the store held before, of each class, is as it was, and so the
  original context reads as before in every field, nested location and medical profile
  included; and the new context is the value-copy of the original with the anonymized
  fields.
\<close>

theorem anonymize_emergency_context_frame:
  assumes "valid_context s a"
  shows "fst (anonymize_emergency_context s a) \<noteq> a
    \<and> fst (anonymize_emergency_context s a) = length (contexts s)
    \<and> take (length (contexts s)) (contexts (snd (anonymize_emergency_context s a))) = contexts s
    \<and> take (length (locations s)) (locations (snd (anonymize_emergency_context s a))) = locations s
    \<and> take (length (profiles s)) (profiles (snd (anonymize_emergency_context s a))) = profiles s
    \<and> context_at (snd (anonymize_emergency_context s a)) a = context_at s a
    \<and> valid_context (snd (anonymize_emergency_context s a)) (fst (anonymize_emergency_context s a))
    \<and> context_at (snd (anonymize_emergency_context s a)) (fst (anonymize_emergency_context s a))
        = anonymized_value (context_at s a)"
proof -
  from assms have "a < length (contexts s)" by (simp add: valid_context_def)
  then have ne: "fst (anonymize_emergency_context s a) \<noteq> a"
    by (simp add: anonymize_fst)
  have pr: "take (length (profiles s)) (profiles (snd (anonymize_emergency_context s a))) = profiles s"
    by (simp add: anonymize_profiles model_copy_deep_sel)
  show ?thesis
    using ne pr context_at_original [OF assms] context_at_copy [OF assms] valid_copy [OF assms]
    by (simp add: anonymize_fst anonymize_contexts anonymize_locations)
qed

lemma example_store_valid: "valid_context example_store 0"
  by (simp add: valid_context_def example_store_def)

theorem anonymize_emergency_context_frame_witness:
  "fst (anonymize_emergency_context example_store 0) \<noteq> 0
   \<and> context_at (snd (anonymize_emergency_context example_store 0)) 0 = context_at example_store 0
   \<and> take (length (locations example_store))
        (locations (snd (anonymize_emergency_context example_store 0))) = locations example_store"
proof -
  note f = anonymize_emergency_context_frame [OF example_store_valid]
  show ?thesis
    by (rule conjI f [THEN conjunct1]
        f [THEN conjunct2, THEN conjunct2, THEN conjunct2, THEN conjunct2, THEN conjunct2,
           THEN conjunct1]
        f [THEN conjunct2, THEN conjunct2, THEN conjunct2, THEN conjunct1])+
qed

section \<open>The cache key\<close>

lemma sort_same_pairs:
  fixes xs ys :: "(string \<times> string) list"
  assumes "distinct (map fst xs)" and "distinct (map fst ys)" and "set xs = set ys"
  shows "sort xs = sort ys"
proof -
  from assms have "distinct xs" and "distinct ys"
    by (simp_all add: distinct_map)
  with assms(3) have "mset xs = mset ys"
    by (simp add: set_eq_iff_mset_eq_distinct)
  then have "sorted_list_of_multiset (mset xs) = sorted_list_of_multiset (mset ys)"
    by simp
  then show ?thesis
    by (simp only: sorted_list_of_multiset_mset)
qed

lemma hex_digit_char: "hex_digit n \<in> set ''0123456789abcdef''"
proof -
  have "n mod 16 < length ''0123456789abcdef''" by simp
  then show ?thesis unfolding hex_digit_def by (rule nth_mem)
qed

lemma hex_byte_shape: "length (hex_byte b) = 2" "set (hex_byte b) \<subseteq> set ''0123456789abcdef''"
  using hex_digit_char by (simp_all add: hex_byte_def)

lemma hex_bytes_shape:
  "length (concat (map hex_byte bs)) = 2 * length bs"
  "set (concat (map hex_byte bs)) \<subseteq> set ''0123456789abcdef''"
  using hex_byte_shape(2) by (induction bs) (simp_all add: hex_byte_shape(1))

lemma md5_hexdigest_shape:
  "length (md5_hexdigest s) = 32" "set (md5_hexdigest s) \<subseteq> set ''0123456789abcdef''"
proof -
  obtain A B C D where m: "md5 (map of_char s) = (A, B, C, D)"
    by (cases "md5 (map of_char s)") auto
  show "length (md5_hexdigest s) = 32"
    by (simp add: md5_hexdigest_def m hex_byte_shape(1) le_bytes_def)
  show "set (md5_hexdigest s) \<subseteq> set ''0123456789abcdef''"
    unfolding md5_hexdigest_def m prod.case by (rule hex_bytes_shape(2))
qed

text \<open>
  Claim C3. For every namespace and every two lists of keyword arguments that hold the
  same name/value pairs, each name once, in whatever order: the derived keys are the same
  string; and the key is \<open>llm:\<close>, the namespace, a colon and a digest of 32 lowercase
  hexadecimal digits.
\<close>

theorem cache_key_order_independent:
  assumes "distinct (map fst kwargs)" and "distinct (map fst kwargs')"
    and "set kwargs' = set kwargs"
  shows "generate_cache_key prefix kwargs' = generate_cache_key prefix kwargs
    \<and> (\<exists>digest. generate_cache_key prefix kwargs = ''llm:'' @ prefix @ '':'' @ digest
          \<and> length digest = 32 \<and> set digest \<subseteq> set ''0123456789abcdef'')"
proof -
  have "sort kwargs' = sort kwargs"
    using assms by (intro sort_same_pairs) simp_all
  then have same: "generate_cache_key prefix kwargs' = generate_cache_key prefix kwargs"
    by (simp add: generate_cache_key_def)
  have "generate_cache_key prefix kwargs
          = ''llm:'' @ prefix @ '':'' @ md5_hexdigest (json_dumps (sort kwargs))"
    by (simp add: generate_cache_key_def Let_def)
  with md5_hexdigest_shape [of "json_dumps (sort kwargs)"] same show ?thesis
    by blast
qed

theorem cache_key_order_independent_witness:
  "generate_cache_key ''assessment'' [(''desc'', ''smoke''), (''type'', ''fire'')]
     = generate_cache_key ''assessment'' [(''type'', ''fire''), (''desc'', ''smoke'')]"
proof -
  have a: "distinct (map fst [(''type'', ''fire''), (''desc'', ''smoke'')])" by simp
  have b: "distinct (map fst [(''desc'', ''smoke''), (''type'', ''fire'')])" by simp
  have c: "set [(''desc'', ''smoke''), (''type'', ''fire'')]
             = set [(''type'', ''fire''), (''desc'', ''smoke'')]" by auto
  show ?thesis
    by (rule cache_key_order_independent [OF a b c, THEN conjunct1])
qed

section \<open>The fallback path and the cache\<close>

lemma assess_emergency_fallback_cache:
  "snd (assess_emergency settings orchestrator now (s, cache) request) = FromFallback r
   \<Longrightarrow> snd (fst (assess_emergency settings orchestrator now (s, cache) request)) = cache"
  by (simp add: assess_emergency_def Let_def
      split: option.splits cached.splits sum.splits if_splits)

lemma first_aid_fallback_cache:
  "snd (get_first_aid_guidance settings orchestrator now (s, cache) request) = FromFallback r
   \<Longrightarrow> snd (fst (get_first_aid_guidance settings orchestrator now (s, cache) request)) = cache"
  by (simp add: get_first_aid_guidance_def Let_def
      split: option.splits cached.splits sum.splits if_splits)

text \<open>The path that succeeds does store: its cache is the one \<open>set_assessment_cache\<close> returns.\<close>

lemma assess_emergency_success_stores:
  "snd (assess_emergency settings orchestrator now (s, cache) request) = FromLLM r
   \<Longrightarrow> \<exists>ty desc d. snd (fst (assess_emergency settings orchestrator now (s, cache) request))
          = snd (set_assessment_cache settings cache ty desc d)"
  by (auto simp: assess_emergency_def Let_def assessment_fallback_def
      split: option.splits cached.splits sum.splits if_splits)

text \<open>
  Claim C9. On both endpoints, whenever the result of a request is the response of the
  \<open>except\<close> branch, built from the fallback service (the providers failed or the
  response did not validate; the parsers are total and never raise), the cache after the
  request is the cache before it: nothing was stored. A response of the successful path
  whose steps the parser took from the fallback service, for want of parsed steps, is
  \<open>FromLLM\<close> and not meant here.
\<close>

theorem fallback_never_stores:
  "(\<forall>r. snd (assess_emergency settings orchestrator now (s, cache) request) = FromFallback r
      \<longrightarrow> snd (fst (assess_emergency settings orchestrator now (s, cache) request)) = cache)
   \<and> (\<forall>r. snd (get_first_aid_guidance settings orchestrator now (s, cache) fa_request) = FromFallback r
      \<longrightarrow> snd (fst (get_first_aid_guidance settings orchestrator now (s, cache) fa_request)) = cache)"
  using assess_emergency_fallback_cache first_aid_fallback_cache by blast

lemma empty_cache_miss: "cache_get empty_cache key = None"
  by (simp add: cache_get_def empty_cache_def)

lemma failing_providers_raise: "snd (generate_response failing_providers sys_p usr_p False) = Inl AllProvidersFailed"
  by (simp add: generate_response_def failing_providers_def)

theorem fallback_never_stores_witness:
  "snd (fst (assess_emergency example_settings failing_providers 0 (example_store, empty_cache)
       \<lparr>emergency_context = 0, include_recommendations = True\<rparr>)) = empty_cache
   \<and> snd (fst (get_first_aid_guidance example_settings failing_providers 0 (example_store, empty_cache)
       \<lparr>fa_emergency_context = 0, specific_concern = None\<rparr>)) = empty_cache"
proof -
  have a: "\<exists>r. snd (assess_emergency example_settings failing_providers 0 (example_store, empty_cache)
       \<lparr>emergency_context = 0, include_recommendations = True\<rparr>) = FromFallback r"
    by (simp add: assess_emergency_def Let_def get_assessment_cache_def empty_cache_miss
        failing_providers_raise assessment_fallback_def example_settings_def)
  have f: "\<exists>r. snd (get_first_aid_guidance example_settings failing_providers 0 (example_store, empty_cache)
       \<lparr>fa_emergency_context = 0, specific_concern = None\<rparr>) = FromFallback r"
    by (simp add: get_first_aid_guidance_def Let_def get_first_aid_cache_def empty_cache_miss
        failing_providers_raise first_aid_fallback_def example_settings_def)
  note t = fallback_never_stores [where settings = example_settings
      and orchestrator = failing_providers and now = 0 and s = example_store
      and cache = empty_cache
      and request = "\<lparr>emergency_context = 0, include_recommendations = True\<rparr>"
      and fa_request = "\<lparr>fa_emergency_context = 0, specific_concern = None\<rparr>"]
  from a t [THEN conjunct1] have 1: "snd (fst (assess_emergency example_settings failing_providers 0
       (example_store, empty_cache)
       \<lparr>emergency_context = 0, include_recommendations = True\<rparr>)) = empty_cache"
    by (elim exE) (erule allE, erule (1) mp)
  from f t [THEN conjunct2] have 2: "snd (fst (get_first_aid_guidance example_settings
       failing_providers 0 (example_store, empty_cache)
       \<lparr>fa_emergency_context = 0, specific_concern = None\<rparr>)) = empty_cache"
    by (elim exE) (erule allE, erule (1) mp)
  from 1 2 show ?thesis by (rule conjI)
qed

section \<open>The phone substitution\<close>






















declare rx_scan.simps [simp del]























end
